theory Spec2Isabelle
  imports Complex_Main "HOL-Library.Word" "HOL-Library.AList" "HOL-Library.Sublist"
begin

section \<open>Python values\<close>

text \<open>
  The experiment class \<open>Exp\<close> of \<open>yolox/exp/yolox_base.py\<close> is a Python object with
  hyperparameter attributes and factory methods that call into torch and into the
  \<open>yolox\<close> packages. The embedding keeps every exception as a value. The first six
  errors are raised by the Python code of the file itself (attribute access, arithmetic,
  \<open>random.randint\<close>, storing an integer into an int64 tensor); \<open>FrameworkError t\<close>
  is whatever exception \<open>t\<close> a call into the framework raised.
\<close>

datatype error =
    AttributeError
  | ZeroDivisionError
  | OverflowError
  | ValueError
  | TypeError
  | RuntimeError
  | FrameworkError nat

text \<open>Sequencing of computations that may raise.\<close>

definition bindE :: "error + 'a \<Rightarrow> ('a \<Rightarrow> error + 'b) \<Rightarrow> error + 'b" where
  "bindE r f = (case r of Inl e \<Rightarrow> Inl e | Inr x \<Rightarrow> f x)"

subsection \<open>Floats\<close>

text \<open>
  A Python float is an IEEE 754 binary64 value: a rational with a 53 bit significand and
  an exponent of at least \<open>-1074\<close>, an infinity (\<open>Infinity True\<close> is the negative
  one) or a NaN. The sign of zero is not kept: none of the operations below reads it.
  \<open>double_round\<close> rounds a rational to the nearest such value, ties to even.
\<close>

datatype pyfloat = Finite rat | Infinity bool | NaN

definition pow2 :: "int \<Rightarrow> rat" where
  "pow2 k = (if 0 \<le> k then 2 ^ nat k else 1 / 2 ^ nat (- k))"

function bit_length :: "int \<Rightarrow> int" where
  "bit_length n = (if n \<le> 0 then 0 else 1 + bit_length (n div 2))"
  by pat_completeness auto
termination
  by (relation "measure nat") auto

declare bit_length.simps [simp del]

definition floor_log2 :: "rat \<Rightarrow> int" where
  "floor_log2 x =
     (if 1 \<le> x then bit_length \<lfloor>x\<rfloor> - 1 else - bit_length (\<lceil>1 / x\<rceil> - 1))"

definition round_half_even :: "rat \<Rightarrow> int" where
  "round_half_even x =
     (let n = \<lfloor>x\<rfloor>; d = x - of_int n
      in if d < 1 / 2 then n else if 1 / 2 < d then n + 1 else if even n then n else n + 1)"

definition double_round :: "rat \<Rightarrow> rat" where
  "double_round x =
     (if x = 0 then 0
      else let e = max (floor_log2 \<bar>x\<bar> - 52) (- 1074)
           in of_int (round_half_even (x / pow2 e)) * pow2 e)"

definition to_double :: "rat \<Rightarrow> pyfloat" where
  "to_double x =
     (let y = double_round x
      in if 2 ^ 1024 \<le> \<bar>y\<bar> then Infinity (y < 0) else Finite y)"

text \<open>\<open>float(n)\<close> for an integer, as the mixed operators convert their integer operand.\<close>

definition float_of_int :: "int \<Rightarrow> error + pyfloat" where
  "float_of_int n =
     (case to_double (of_int n) of Infinity _ \<Rightarrow> Inl OverflowError | f \<Rightarrow> Inr f)"

text \<open>\<open>a / b\<close> on two integers: the correctly rounded quotient.\<close>

definition int_truediv :: "int \<Rightarrow> int \<Rightarrow> error + pyfloat" where
  "int_truediv a b =
     (if b = 0 then Inl ZeroDivisionError
      else case to_double (of_int a / of_int b) of
             Infinity _ \<Rightarrow> Inl OverflowError
           | f \<Rightarrow> Inr f)"

fun float_mul :: "pyfloat \<Rightarrow> pyfloat \<Rightarrow> pyfloat" where
  "float_mul (Finite a) (Finite b) = to_double (a * b)"
| "float_mul NaN _ = NaN"
| "float_mul _ NaN = NaN"
| "float_mul (Infinity s) (Infinity t) = Infinity (s \<noteq> t)"
| "float_mul (Infinity s) (Finite b) = (if b = 0 then NaN else Infinity (s \<noteq> (b < 0)))"
| "float_mul (Finite a) (Infinity t) = (if a = 0 then NaN else Infinity ((a < 0) \<noteq> t))"

fun float_div :: "pyfloat \<Rightarrow> pyfloat \<Rightarrow> error + pyfloat" where
  "float_div x (Finite b) =
     (if b = 0 then Inl ZeroDivisionError
      else case x of
             Finite a \<Rightarrow> Inr (to_double (a / b))
           | Infinity s \<Rightarrow> Inr (Infinity (s \<noteq> (b < 0)))
           | NaN \<Rightarrow> Inr NaN)"
| "float_div x NaN = Inr NaN"
| "float_div (Finite a) (Infinity t) = Inr (Finite 0)"
| "float_div _ (Infinity t) = Inr NaN"

text \<open>\<open>int(x)\<close> truncates towards zero.\<close>

definition int_of_float :: "pyfloat \<Rightarrow> error + int" where
  "int_of_float x =
     (case x of
        Finite r \<Rightarrow> Inr (if 0 \<le> r then \<lfloor>r\<rfloor> else \<lceil>r\<rceil>)
      | Infinity _ \<Rightarrow> Inl OverflowError
      | NaN \<Rightarrow> Inl ValueError)"

text \<open>\<open>x * n\<close> and \<open>n * x\<close> for a float \<open>x\<close> and an integer \<open>n\<close>.\<close>

definition float_times_int :: "pyfloat \<Rightarrow> int \<Rightarrow> error + pyfloat" where
  "float_times_int x n = bindE (float_of_int n) (\<lambda>f. Inr (float_mul x f))"

definition int_times_float :: "int \<Rightarrow> pyfloat \<Rightarrow> error + pyfloat" where
  "int_times_float n x = bindE (float_of_int n) (\<lambda>f. Inr (float_mul f x))"

text \<open>\<open>a // b\<close> on integers rounds towards minus infinity, as \<open>div\<close> does.\<close>

definition floordiv :: "int \<Rightarrow> int \<Rightarrow> error + int" where
  "floordiv a b = (if b = 0 then Inl ZeroDivisionError else Inr (a div b))"

text \<open>
  \<open>random.randint(a, b)\<close>: an integer of the inclusive range, chosen by the random
  bits \<open>r\<close> of the generator; an empty range raises.
\<close>

definition randint :: "nat \<Rightarrow> int \<Rightarrow> int \<Rightarrow> error + int" where
  "randint r a b = (if b < a then Inl ValueError else Inr (a + int r mod (b - a + 1)))"

text \<open>\<open>sub in s\<close> on strings.\<close>

fun str_contains :: "string \<Rightarrow> string \<Rightarrow> bool" where
  "str_contains sub [] = (sub = [])"
| "str_contains sub (c # cs) = (prefix sub (c # cs) \<or> str_contains sub cs)"

subsection \<open>Objects\<close>

text \<open>
  Objects live in a heap and are known by their address, so that "the same object" is
  equality of addresses. \<open>PParam a\<close> is a reference to an \<open>nn.Parameter\<close>, \<open>PRef a\<close>
  a reference to any other object.
\<close>

type_synonym addr = nat

datatype pyval =
    PNone
  | PBool bool
  | PInt int
  | PFloat pyfloat
  | PStr string
  | PTuple "pyval list"
  | PList "pyval list"
  | PRef addr
  | PParam addr

text \<open>
  A module of a network: whether it is an \<open>nn.BatchNorm2d\<close>, and its attributes by
  name (\<open>hasattr(v, n)\<close> is \<open>map_of (attrs v) n \<noteq> None\<close>).
\<close>

record module =
  is_BatchNorm2d :: bool
  attrs :: "(string \<times> pyval) list"

text \<open>
  \<open>Built c args kwargs\<close> is an object the framework constructed from the class or
  function \<open>c\<close> with these positional and keyword arguments; \<open>Network args ms\<close> is a
  network built from \<open>args\<close> whose \<open>named_modules()\<close> are \<open>ms\<close>; \<open>Optimizer gs\<close> is
  an optimizer with the parameter groups \<open>gs\<close>, each the dict it was given. A tensor is
  the list of its rows along the last axis, a tensor of one dimension a single row:
  \<open>LongTensor\<close> holds int64 elements, \<open>FloatTensor\<close> elements of a floating type.
\<close>

datatype obj =
    Built string "pyval list" "(string \<times> pyval) list"
  | Network "pyval list" "(string \<times> module) list"
  | Optimizer "(string \<times> pyval) list list"
  | LongTensor "64 word list list"
  | FloatTensor "pyfloat list list"

section \<open>The configuration object\<close>

text \<open>
  An attribute that \<open>__init__\<close> does not assign is \<open>Absent\<close> from \<open>__dict__\<close> until a
  method assigns it.
\<close>

datatype 'a attr = Absent | PyNone | Obj 'a

record Exp =
  num_classes :: int
  num_colors :: int
  depth :: pyfloat
  width :: pyfloat
  act :: string
  data_num_workers :: int
  input_size :: "int \<times> int"
  multiscale_range :: int
  random_size :: "(int \<times> int) option"
  data_dir :: "string option"
  train_ann :: string
  val_ann :: string
  mosaic_prob :: pyfloat
  mosaic_scale :: pyval
  enable_mixup :: bool
  mixup_prob :: pyfloat
  mixup_scale :: pyval
  hsv_prob :: pyfloat
  gaussian_prob :: pyfloat
  flip_prob :: pyfloat
  degrees :: pyfloat
  translate :: pyfloat
  shear :: pyfloat
  perspective :: pyfloat
  warmup_epochs :: int
  max_epoch :: int
  warmup_lr :: pyfloat
  basic_lr_per_img :: pyfloat
  scheduler :: string
  no_aug_epochs :: int
  min_lr_ratio :: pyfloat
  ema :: bool
  weight_decay :: pyfloat
  momentum :: pyfloat
  print_interval :: int
  eval_interval :: int
  exp_name :: string
  test_size :: "int \<times> int"
  test_conf :: pyfloat
  nmsthre :: pyfloat
  seed :: "int option"
  model :: "addr attr"
  optimizer :: "addr attr"
  dataset :: "addr attr"

text \<open>
  \<open>Exp.__init__\<close>. The attribute \<open>seed\<close> is assigned by the base class \<open>BaseExp\<close>,
  whose file is not part of the sources: its value is a parameter. \<open>random_size\<close>,
  \<open>model\<close>, \<open>optimizer\<close> and \<open>dataset\<close> are not assigned.
\<close>

definition Exp_init :: "int option \<Rightarrow> Exp" where
  "Exp_init base_seed =
     \<lparr> num_classes = 8, num_colors = 3, depth = Finite 1, width = Finite 1, act = ''silu'',
       data_num_workers = 4, input_size = (512, 640), multiscale_range = 5,
       random_size = None, data_dir = None,
       train_ann = ''instances_train2017.json'', val_ann = ''instances_val2017.json'',
       mosaic_prob = Finite 1, mosaic_scale = PTuple [PFloat (to_double (1 / 10)), PInt 2],
       enable_mixup = False, mixup_prob = Finite 0,
       mixup_scale = PTuple [PFloat (Finite (1 / 2)), PFloat (Finite (3 / 2))],
       hsv_prob = Finite 1, gaussian_prob = to_double (3 / 10), flip_prob = Finite 0,
       degrees = Finite 15, translate = Finite 1, shear = Finite 1,
       perspective = to_double (1 / 10),
       warmup_epochs = 15, max_epoch = 2000, warmup_lr = to_double (5 / 10 ^ 7),
       basic_lr_per_img = to_double (5 / 10 ^ 6), scheduler = ''yoloxwarmcos'',
       no_aug_epochs = 20, min_lr_ratio = to_double (6 / 100), ema = True,
       weight_decay = to_double (2 / 10 ^ 4), momentum = to_double (9 / 10),
       print_interval = 6, eval_interval = 5, exp_name = ''yolox_base'',
       test_size = (512, 640), test_conf = to_double (2 / 10), nmsthre = to_double (3 / 10),
       seed = base_seed, model = Absent, optimizer = Absent, dataset = Absent \<rparr>"

section \<open>A process and the framework it calls\<close>

text \<open>
  What the framework contributes to a run is collected in an environment: which of the
  calls into it raise (the calls of a process are numbered, \<open>env_faults env k = Some t\<close>
  when call \<open>k\<close> raises the exception \<open>t\<close>), and the values it reports.
\<close>

record env =
  env_faults :: "nat \<Rightarrow> nat option"
  env_local_rank :: int
  env_world_size :: int
  env_dist_rank :: int
  env_dataset_len :: int
  env_yolox_modules :: "(string \<times> module) list"
  env_initialize_biases :: "pyfloat \<Rightarrow> (string \<times> module) list \<Rightarrow> (string \<times> module) list"
  env_uninitialized :: "64 word \<times> 64 word"
  env_randbits :: nat
  env_received :: "64 word \<times> 64 word"
  env_tensor_mul :: "pyfloat \<Rightarrow> pyfloat \<Rightarrow> pyfloat"
  env_tensor_cast :: "pyfloat \<Rightarrow> 64 word"
  env_evaluate :: pyval

text \<open>
  The state of one training process: the configuration object \<open>self\<close>, the heap, the
  next free address and the number of calls made into the framework so far.
\<close>

record proc =
  self :: Exp
  heap :: "addr \<Rightarrow> obj option"
  next_addr :: addr
  ncalls :: nat

type_synonym 'a action = "proc \<Rightarrow> (error + 'a) \<times> proc"

definition returnM :: "'a \<Rightarrow> 'a action" where
  "returnM x w = (Inr x, w)"

definition raise :: "error \<Rightarrow> 'a action" where
  "raise e w = (Inl e, w)"

text \<open>
  Sequencing: an exception of the first action ends the run with the state reached so
  far. The source has no \<open>try\<close> statement, so this is the only way actions combine.
\<close>

definition bindM :: "'a action \<Rightarrow> ('a \<Rightarrow> 'b action) \<Rightarrow> 'b action" where
  "bindM m f w = (case m w of (Inl e, w') \<Rightarrow> (Inl e, w') | (Inr x, w') \<Rightarrow> f x w')"

definition lift :: "error + 'a \<Rightarrow> 'a action" where
  "lift r w = (r, w)"

definition get_self :: "Exp action" where
  "get_self w = (Inr (self w), w)"

definition set_self :: "(Exp \<Rightarrow> Exp) \<Rightarrow> unit action" where
  "set_self f w = (Inr (), w\<lparr>self := f (self w)\<rparr>)"

definition alloc :: "obj \<Rightarrow> addr action" where
  "alloc v w = (Inr (next_addr w), w\<lparr>heap := (heap w)(next_addr w \<mapsto> v), next_addr := Suc (next_addr w)\<rparr>)"

definition lookup :: "addr \<Rightarrow> obj option action" where
  "lookup a w = (Inr (heap w a), w)"

definition store :: "addr \<Rightarrow> obj \<Rightarrow> unit action" where
  "store a v w = (Inr (), w\<lparr>heap := (heap w)(a \<mapsto> v)\<rparr>)"

text \<open>One call into the framework: it is counted, and raises when the environment says so.\<close>

definition fw :: "env \<Rightarrow> unit action" where
  "fw env w =
     (case env_faults env (ncalls w) of
        Some t \<Rightarrow> (Inl (FrameworkError t), w\<lparr>ncalls := Suc (ncalls w)\<rparr>)
      | None \<Rightarrow> (Inr (), w\<lparr>ncalls := Suc (ncalls w)\<rparr>))"

definition fw_value :: "env \<Rightarrow> 'a \<Rightarrow> 'a action" where
  "fw_value env x = bindM (fw env) (\<lambda>_. returnM x)"

definition fw_alloc :: "env \<Rightarrow> obj \<Rightarrow> addr action" where
  "fw_alloc env v = bindM (fw env) (\<lambda>_. alloc v)"

definition fw_new :: "env \<Rightarrow> string \<Rightarrow> pyval list \<Rightarrow> (string \<times> pyval) list \<Rightarrow> addr action" where
  "fw_new env c args kwargs = fw_alloc env (Built c args kwargs)"

definition size_tuple :: "int \<times> int \<Rightarrow> pyval" where
  "size_tuple s = PTuple [PInt (fst s), PInt (snd s)]"

definition opt_str :: "string option \<Rightarrow> pyval" where
  "opt_str s = (case s of None \<Rightarrow> PNone | Some x \<Rightarrow> PStr x)"

section \<open>The operations\<close>

text \<open>
  Every call into torch or into a \<open>yolox\<close> package is one \<open>fw\<close> step, in the order
  Python evaluates the calls; so is each \<open>from ... import\<close> statement of a method body.
\<close>

subsection \<open>\<open>get_model\<close>\<close>

text \<open>
  The local function \<open>init_yolo\<close>: its loop over \<open>M.modules()\<close>. \<open>Module.apply\<close>
  calls it on every submodule and on the network itself; the call on the network
  already visits every module, and the assignments do not depend on earlier ones.
\<close>

definition init_yolo_module :: "module \<Rightarrow> module" where
  "init_yolo_module m =
     (if is_BatchNorm2d m
      then m\<lparr>attrs := AList.update ''momentum'' (PFloat (to_double (3 / 100)))
                        (AList.update ''eps'' (PFloat (to_double (1 / 1000))) (attrs m))\<rparr>
      else m)"

definition init_yolo :: "(string \<times> module) list \<Rightarrow> (string \<times> module) list" where
  "init_yolo ms = map (\<lambda>(k, m). (k, init_yolo_module m)) ms"

text \<open>
  \<open>self.model\<close> as the receiver of a method call: the attribute is missing, or it is
  \<open>None\<close> and has no such method.
\<close>

definition the_model :: "addr action" where
  "the_model =
     bindM get_self (\<lambda>e. case model e of Obj a \<Rightarrow> returnM a | _ \<Rightarrow> raise AttributeError)"

text \<open>A method call on \<open>self.model\<close> that updates the modules of the network in place.\<close>

definition update_model ::
    "env \<Rightarrow> ((string \<times> module) list \<Rightarrow> (string \<times> module) list) \<Rightarrow> unit action" where
  "update_model env f =
     bindM the_model (\<lambda>a.
     bindM (lookup a) (\<lambda>v.
       case v of
         Some (Network args ms) \<Rightarrow> bindM (fw env) (\<lambda>_. store a (Network args (f ms)))
       | _ \<Rightarrow> raise AttributeError))"

definition build_model :: "env \<Rightarrow> unit action" where
  "build_model env =
     bindM get_self (\<lambda>e.
     bindM (returnM (PList [PInt 256, PInt 512, PInt 1024])) (\<lambda>in_channels.
     bindM (fw_new env ''YOLOPAFPN'' [PFloat (depth e), PFloat (width e)]
              [(''in_channels'', in_channels), (''act'', PStr (act e))]) (\<lambda>backbone.
     bindM (fw_new env ''YOLOXHead'' [PInt (num_classes e), PInt (num_colors e), PFloat (width e)]
              [(''in_channels'', in_channels), (''act'', PStr (act e))]) (\<lambda>head.
     bindM (fw_alloc env (Network [PRef backbone, PRef head] (env_yolox_modules env))) (\<lambda>m.
     set_self (\<lambda>e. e\<lparr>model := Obj m\<rparr>))))))"

definition get_model :: "env \<Rightarrow> addr action" where
  "get_model env =
     bindM (fw env) (\<lambda>_.
     bindM get_self (\<lambda>e.
     bindM (if model e = Absent \<or> model e = PyNone then build_model env else returnM ()) (\<lambda>_.
     bindM (update_model env init_yolo) (\<lambda>_.
     bindM (update_model env (env_initialize_biases env (to_double (1 / 100)))) (\<lambda>_.
     the_model)))))"

subsection \<open>\<open>get_data_loader\<close>\<close>

definition TrainTransform :: "env \<Rightarrow> Exp \<Rightarrow> int \<Rightarrow> addr action" where
  "TrainTransform env e max_labels =
     fw_new env ''TrainTransform'' []
       [(''max_labels'', PInt max_labels), (''flip_prob'', PFloat (flip_prob e)),
        (''hsv_prob'', PFloat (hsv_prob e)), (''gaussian_prob'', PFloat (gaussian_prob e))]"

text \<open>
  The context manager \<open>wait_for_the_master\<close> is not part of the sources. Entering and
  leaving the \<open>with\<close> block are one framework call each, and an exception of the body
  leaves the block as it is (the manager is taken not to swallow it).
\<close>

definition get_data_loader :: "env \<Rightarrow> int \<Rightarrow> bool \<Rightarrow> bool \<Rightarrow> bool \<Rightarrow> addr action" where
  "get_data_loader env batch_size is_distributed no_aug cache_img =
     bindM (fw env) (\<lambda>_.
     bindM (fw env) (\<lambda>_.
     bindM (fw_value env (env_local_rank env)) (\<lambda>local_rank.
     bindM (fw env) (\<lambda>_.
     bindM get_self (\<lambda>e.
     bindM (TrainTransform env e 50) (\<lambda>preproc.
     bindM (fw_new env ''COCODataset'' []
              [(''data_dir'', opt_str (data_dir e)), (''json_file'', PStr (train_ann e)),
               (''img_size'', size_tuple (input_size e)), (''preproc'', PRef preproc),
               (''cache'', PBool cache_img), (''type'', PStr ''Train'')]) (\<lambda>dataset.
     bindM (fw env) (\<lambda>_.
     bindM (TrainTransform env e 120) (\<lambda>preproc.
     bindM (fw_new env ''MosaicDetection'' [PRef dataset]
              [(''mosaic'', PBool (\<not> no_aug)), (''img_size'', size_tuple (input_size e)),
               (''preproc'', PRef preproc), (''degrees'', PFloat (degrees e)),
               (''translate'', PFloat (translate e)), (''mosaic_scale'', mosaic_scale e),
               (''mixup_scale'', mixup_scale e), (''shear'', PFloat (shear e)),
               (''perspective'', PFloat (perspective e)),
               (''enable_mixup'', PBool (enable_mixup e)),
               (''mosaic_prob'', PFloat (mosaic_prob e)),
               (''mixup_prob'', PFloat (mixup_prob e))]) (\<lambda>dataset.
     bindM (set_self (\<lambda>e. e\<lparr>dataset := Obj dataset\<rparr>)) (\<lambda>_.
     bindM (if is_distributed
            then bindM (fw_value env (env_world_size env)) (\<lambda>world_size.
                   lift (floordiv batch_size world_size))
            else returnM batch_size) (\<lambda>batch_size.
     bindM (fw_value env (env_dataset_len env)) (\<lambda>n.
     bindM (fw_new env ''InfiniteSampler'' [PInt n]
              [(''seed'', PInt (case seed e of None \<Rightarrow> 0 | Some s \<Rightarrow> if s \<noteq> 0 then s else 0))])
       (\<lambda>sampler.
     bindM (fw_new env ''YoloBatchSampler'' []
              [(''sampler'', PRef sampler), (''batch_size'', PInt batch_size),
               (''drop_last'', PBool False), (''mosaic'', PBool (\<not> no_aug))]) (\<lambda>batch_sampler.
     fw_new env ''DataLoader'' [PRef dataset]
       [(''num_workers'', PInt (data_num_workers e)), (''pin_memory'', PBool True),
        (''batch_sampler'', PRef batch_sampler)])))))))))))))))"

subsection \<open>\<open>random_resize\<close>\<close>

text \<open>
  Lines 184 to 190 call nothing but Python arithmetic and \<open>random.randint\<close>.
  \<open>size_factor\<close> is line 184, \<open>default_random_size\<close> lines 186 and 187 and
  \<open>scaled_size\<close> line 190. \<open>pick_size\<close> gives the size rank 0 picks and the
  configuration object after it: the range is stored on first use, also when
  \<open>randint\<close> then raises.
\<close>

definition size_factor :: "Exp \<Rightarrow> error + pyfloat" where
  "size_factor e =
     bindE (int_times_float (snd (input_size e)) (Finite 1)) (\<lambda>w1.
     bindE (float_of_int (fst (input_size e))) (\<lambda>h.
     float_div w1 h))"

definition default_random_size :: "Exp \<Rightarrow> error + int \<times> int" where
  "default_random_size e =
     bindE (int_truediv (fst (input_size e)) 32) (\<lambda>q.
     bindE (int_of_float q) (\<lambda>n.
     Inr (n - multiscale_range e, n + multiscale_range e)))"

definition scaled_size :: "int \<Rightarrow> pyfloat \<Rightarrow> error + int \<times> int" where
  "scaled_size sz f =
     bindE (int_times_float sz f) (\<lambda>x.
     bindE (int_of_float x) (\<lambda>n.
     Inr (32 * sz, 32 * n)))"

definition pick_size :: "nat \<Rightarrow> Exp \<Rightarrow> (error + int \<times> int) \<times> Exp" where
  "pick_size r e =
     (case size_factor e of
        Inl err \<Rightarrow> (Inl err, e)
      | Inr f \<Rightarrow>
          (case (case random_size e of
                   Some rs \<Rightarrow> Inr (rs, e)
                 | None \<Rightarrow> bindE (default_random_size e) (\<lambda>rs.
                             Inr (rs, e\<lparr>random_size := Some rs\<rparr>))) of
             Inl err \<Rightarrow> (Inl err, e)
           | Inr ((min_size, max_size), e') \<Rightarrow>
               (case randint r min_size max_size of
                  Inl err \<Rightarrow> (Inl err, e')
                | Inr sz \<Rightarrow> (scaled_size sz f, e'))))"

definition random_resize_pick :: "env \<Rightarrow> (int \<times> int) action" where
  "random_resize_pick env w =
     (case pick_size (env_randbits env) (self w) of (r, e') \<Rightarrow> (r, w\<lparr>self := e'\<rparr>))"

text \<open>
  \<open>tensor[i] = n\<close> on an int64 tensor of one dimension: an integer outside the 64 bit
  range raises. The method indexes only the tensor of one dimension it has created.
\<close>

definition tensor_set :: "env \<Rightarrow> addr \<Rightarrow> nat \<Rightarrow> int \<Rightarrow> unit action" where
  "tensor_set env t i n =
     bindM (fw env) (\<lambda>_.
     bindM (lookup t) (\<lambda>v.
       case v of
         Some (LongTensor [xs]) \<Rightarrow>
           if i < length xs
           then if - (2 ^ 63) \<le> n \<and> n < 2 ^ 63
                then store t (LongTensor [xs[i := word_of_int n]])
                else raise RuntimeError
           else raise RuntimeError
       | _ \<Rightarrow> raise TypeError))"

text \<open>\<open>tensor[i].item()\<close>: the indexing and \<open>item\<close> are two calls.\<close>

definition tensor_item :: "env \<Rightarrow> addr \<Rightarrow> nat \<Rightarrow> int action" where
  "tensor_item env t i =
     bindM (fw env) (\<lambda>_.
     bindM (fw env) (\<lambda>_.
     bindM (lookup t) (\<lambda>v.
       case v of
         Some (LongTensor [xs]) \<Rightarrow>
           if i < length xs then returnM (sint (xs ! i)) else raise RuntimeError
       | _ \<Rightarrow> raise TypeError)))"

text \<open>
  \<open>dist.broadcast(tensor, 0)\<close>: the process of rank 0 keeps its tensor, every other
  process has its tensor overwritten with what it receives.
\<close>

definition broadcast :: "env \<Rightarrow> addr \<Rightarrow> unit action" where
  "broadcast env t =
     bindM (fw env) (\<lambda>_.
       if env_dist_rank env = 0 then returnM ()
       else store t (LongTensor [[fst (env_received env), snd (env_received env)]]))"

text \<open>
  Lines 181 to 192: \<open>torch.LongTensor(2)\<close> is uninitialised memory, \<open>.cuda()\<close> copies
  it to the device, and rank 0 writes the size it picks.
\<close>

definition random_resize_local :: "env \<Rightarrow> int \<Rightarrow> addr action" where
  "random_resize_local env rank =
     bindM (fw_alloc env (LongTensor [[fst (env_uninitialized env), snd (env_uninitialized env)]]))
       (\<lambda>host.
     bindM (fw_alloc env (LongTensor [[fst (env_uninitialized env), snd (env_uninitialized env)]]))
       (\<lambda>tensor.
     bindM (if rank = 0
            then bindM (random_resize_pick env) (\<lambda>sz.
                 bindM (tensor_set env tensor 0 (fst sz)) (\<lambda>_.
                 tensor_set env tensor 1 (snd sz)))
            else returnM ()) (\<lambda>_.
     returnM tensor)))"

text \<open>Lines 194 to 196.\<close>

definition random_resize_sync :: "env \<Rightarrow> addr \<Rightarrow> bool \<Rightarrow> unit action" where
  "random_resize_sync env tensor is_distributed =
     (if is_distributed then bindM (fw env) (\<lambda>_. broadcast env tensor) else returnM ())"

text \<open>Lines 198 and 199.\<close>

definition random_resize_read :: "env \<Rightarrow> addr \<Rightarrow> (int \<times> int) action" where
  "random_resize_read env tensor =
     bindM (tensor_item env tensor 0) (\<lambda>h.
     bindM (tensor_item env tensor 1) (\<lambda>w.
     returnM (h, w)))"

definition random_resize :: "env \<Rightarrow> pyval \<Rightarrow> int \<Rightarrow> int \<Rightarrow> bool \<Rightarrow> (int \<times> int) action" where
  "random_resize env data_loader epoch rank is_distributed =
     bindM (random_resize_local env rank) (\<lambda>tensor.
     bindM (random_resize_sync env tensor is_distributed) (\<lambda>_.
     random_resize_read env tensor))"

text \<open>
  A distributed run: the processes are the ranks \<open>0, 1, ...\<close> of the list, each with
  its own environment and state, and each calls \<open>random_resize\<close> with its own rank.
  What the broadcast delivers is the tensor rank 0 holds when it reaches the broadcast;
  when rank 0 raises before, the other ranks wait for ever and return nothing.
\<close>

definition broadcast_payload :: "env \<Rightarrow> proc \<Rightarrow> (64 word \<times> 64 word) option" where
  "broadcast_payload env0 w0 =
     (case bindM (random_resize_local env0 0) (\<lambda>tensor.
             bindM (fw env0) (\<lambda>_. bindM (fw env0) (\<lambda>_. lookup tensor))) w0 of
        (Inr (Some (LongTensor [[a, b]])), _) \<Rightarrow> Some (a, b)
      | _ \<Rightarrow> None)"

definition random_resize_ranks ::
    "(env \<times> proc) list \<Rightarrow> pyval \<Rightarrow> int \<Rightarrow> ((error + int \<times> int) \<times> proc) option list" where
  "random_resize_ranks ps data_loader epoch =
     (case ps of
        [] \<Rightarrow> []
      | (env0, w0) # others \<Rightarrow>
          Some (random_resize (env0\<lparr>env_dist_rank := 0\<rparr>) data_loader epoch 0 True w0) #
          map (\<lambda>(i, env, w).
                 case broadcast_payload (env0\<lparr>env_dist_rank := 0\<rparr>) w0 of
                   None \<Rightarrow> None
                 | Some p \<Rightarrow>
                     Some (random_resize (env\<lparr>env_dist_rank := int i, env_received := p\<rparr>)
                             data_loader epoch (int i) True w))
              (enumerate 1 others))"

subsection \<open>\<open>preprocess\<close>\<close>

text \<open>
  \<open>row[start::2]\<close> reads every other element of a row from \<open>start\<close> on, and assigning
  to it writes them back.
\<close>

fun every_other :: "'a list \<Rightarrow> 'a list" where
  "every_other [] = []"
| "every_other [x] = [x]"
| "every_other (x # y # xs) = x # every_other xs"

fun put_every_other :: "'a list \<Rightarrow> 'a list \<Rightarrow> 'a list" where
  "put_every_other (v # vs) (x # y # xs) = v # y # put_every_other vs xs"
| "put_every_other (v # vs) [x] = [v]"
| "put_every_other vs xs = xs"

definition getslice2 :: "nat \<Rightarrow> 'a list \<Rightarrow> 'a list" where
  "getslice2 start row = every_other (drop start row)"

definition setslice2 :: "nat \<Rightarrow> 'a list \<Rightarrow> 'a list \<Rightarrow> 'a list" where
  "setslice2 start vs row = take start row @ put_every_other vs (drop start row)"

text \<open>
  The assignment into an int64 tensor converts each product to int64: a product with a
  value in the 64 bit range is truncated towards zero, what is stored for any other is
  the framework's.
\<close>

definition to_int64 :: "env \<Rightarrow> pyfloat \<Rightarrow> 64 word" where
  "to_int64 env x =
     (case int_of_float x of
        Inr n \<Rightarrow> if - (2 ^ 63) \<le> n \<and> n < 2 ^ 63 then word_of_int n else env_tensor_cast env x
      | Inl _ \<Rightarrow> env_tensor_cast env x)"

text \<open>
  \<open>targets[..., start::2] = targets[..., start::2] * scale\<close>: the slice, the product
  (in the arithmetic of the framework, which converts an int64 element to a floating type
  first) and the assignment are three calls; the assignment writes into the tensor the
  caller passed, in the element type of that tensor.
\<close>

definition scale_slice :: "env \<Rightarrow> addr \<Rightarrow> nat \<Rightarrow> pyfloat \<Rightarrow> unit action" where
  "scale_slice env targets start scale =
     bindM (fw env) (\<lambda>_.
     bindM (lookup targets) (\<lambda>v.
       case v of
         Some (FloatTensor rows) \<Rightarrow>
           bindM (fw env) (\<lambda>_.
           bindM (fw env) (\<lambda>_.
           store targets
             (FloatTensor
                (map (\<lambda>row. setslice2 start
                               (map (\<lambda>x. env_tensor_mul env x scale) (getslice2 start row)) row)
                   rows))))
       | Some (LongTensor rows) \<Rightarrow>
           bindM (fw env) (\<lambda>_.
           bindM (fw env) (\<lambda>_.
           store targets
             (LongTensor
                (map (\<lambda>row. setslice2 start
                               (map (\<lambda>x. to_int64 env
                                           (env_tensor_mul env (Finite (of_int (sint x))) scale))
                                  (getslice2 start row)) row)
                   rows))))
       | _ \<Rightarrow> raise TypeError))"

definition preprocess :: "env \<Rightarrow> addr \<Rightarrow> addr \<Rightarrow> int \<times> int \<Rightarrow> (addr \<times> addr) action" where
  "preprocess env inputs targets tsize =
     bindM get_self (\<lambda>e.
     bindM (lift (int_truediv (fst tsize) (fst (input_size e)))) (\<lambda>scale_y.
     bindM (lift (int_truediv (snd tsize) (snd (input_size e)))) (\<lambda>scale_x.
       if scale_x \<noteq> Finite 1 \<or> scale_y \<noteq> Finite 1
       then bindM (fw_new env ''nn.functional.interpolate'' [PRef inputs]
                     [(''size'', size_tuple tsize), (''mode'', PStr ''bilinear''),
                      (''align_corners'', PBool False)]) (\<lambda>inputs.
            bindM (scale_slice env targets 2 scale_x) (\<lambda>_.
            bindM (scale_slice env targets 3 scale_y) (\<lambda>_.
            returnM (inputs, targets))))
       else returnM (inputs, targets))))"

subsection \<open>\<open>get_optimizer\<close>\<close>

text \<open>
  The loop over \<open>self.model.named_modules()\<close>. \<open>v.weight\<close> of a module that is taken
  for a batch norm is read without a test: it raises when the attribute is missing, and
  is appended whatever it is.
\<close>

fun param_groups ::
    "(string \<times> module) list \<Rightarrow> pyval list \<times> pyval list \<times> pyval list \<Rightarrow>
     error + pyval list \<times> pyval list \<times> pyval list" where
  "param_groups [] (pg0, pg1, pg2) = Inr (pg0, pg1, pg2)"
| "param_groups ((k, v) # rest) (pg0, pg1, pg2) =
     (let pg2' = (case map_of (attrs v) ''bias'' of
                    Some (PParam b) \<Rightarrow> pg2 @ [PParam b]
                  | _ \<Rightarrow> pg2)
      in if is_BatchNorm2d v \<or> str_contains ''bn'' k
         then (case map_of (attrs v) ''weight'' of
                 None \<Rightarrow> Inl AttributeError
               | Some x \<Rightarrow> param_groups rest (pg0 @ [x], pg1, pg2'))
         else (case map_of (attrs v) ''weight'' of
                 Some (PParam x) \<Rightarrow> param_groups rest (pg0, pg1 @ [PParam x], pg2')
               | _ \<Rightarrow> param_groups rest (pg0, pg1, pg2')))"

definition named_modules :: "env \<Rightarrow> (string \<times> module) list action" where
  "named_modules env =
     bindM the_model (\<lambda>a.
     bindM (lookup a) (\<lambda>v.
       case v of
         Some (Network args ms) \<Rightarrow> fw_value env ms
       | _ \<Rightarrow> raise AttributeError))"

definition add_param_group :: "env \<Rightarrow> addr \<Rightarrow> (string \<times> pyval) list \<Rightarrow> unit action" where
  "add_param_group env a g =
     bindM (fw env) (\<lambda>_.
     bindM (lookup a) (\<lambda>v.
       case v of
         Some (Optimizer gs) \<Rightarrow> store a (Optimizer (gs @ [g]))
       | _ \<Rightarrow> raise AttributeError))"

definition build_optimizer :: "env \<Rightarrow> int \<Rightarrow> unit action" where
  "build_optimizer env batch_size =
     bindM get_self (\<lambda>e.
     bindM (if 0 < warmup_epochs e then returnM (warmup_lr e)
            else lift (float_times_int (basic_lr_per_img e) batch_size)) (\<lambda>lr.
     bindM (named_modules env) (\<lambda>ms.
     bindM (lift (param_groups ms ([], [], []))) (\<lambda>(pg0, pg1, pg2).
     bindM (fw_alloc env (Optimizer
              [[(''params'', PList pg0), (''lr'', PFloat lr), (''momentum'', PFloat (momentum e)),
                (''nesterov'', PBool True)]])) (\<lambda>optimizer.
     bindM (add_param_group env optimizer
              [(''params'', PList pg1), (''weight_decay'', PFloat (weight_decay e))]) (\<lambda>_.
     bindM (add_param_group env optimizer [(''params'', PList pg2)]) (\<lambda>_.
     set_self (\<lambda>e. e\<lparr>optimizer := Obj optimizer\<rparr>))))))))"

text \<open>The result is \<open>None\<close> when the attribute holds Python's \<open>None\<close>.\<close>

definition get_optimizer :: "env \<Rightarrow> int \<Rightarrow> addr option action" where
  "get_optimizer env batch_size =
     bindM get_self (\<lambda>e.
     bindM (if optimizer e = Absent then build_optimizer env batch_size else returnM ()) (\<lambda>_.
     bindM get_self (\<lambda>e.
       case optimizer e of
         Obj a \<Rightarrow> returnM (Some a)
       | PyNone \<Rightarrow> returnM None
       | Absent \<Rightarrow> raise AttributeError)))"

subsection \<open>The scheduler, the evaluation loader and the evaluator\<close>

definition get_lr_scheduler :: "env \<Rightarrow> pyfloat \<Rightarrow> int \<Rightarrow> addr action" where
  "get_lr_scheduler env lr iters_per_epoch =
     bindM (fw env) (\<lambda>_.
     bindM get_self (\<lambda>e.
     fw_new env ''LRScheduler''
       [PStr (scheduler e), PFloat lr, PInt iters_per_epoch, PInt (max_epoch e)]
       [(''warmup_epochs'', PInt (warmup_epochs e)), (''warmup_lr_start'', PFloat (warmup_lr e)),
        (''no_aug_epochs'', PInt (no_aug_epochs e)), (''min_lr_ratio'', PFloat (min_lr_ratio e))]))"

definition get_eval_loader :: "env \<Rightarrow> int \<Rightarrow> bool \<Rightarrow> bool \<Rightarrow> bool \<Rightarrow> addr action" where
  "get_eval_loader env batch_size is_distributed testdev legacy =
     bindM (fw env) (\<lambda>_.
     bindM get_self (\<lambda>e.
     bindM (fw_new env ''ValTransform'' [] [(''legacy'', PBool legacy)]) (\<lambda>preproc.
     bindM (fw_new env ''COCODataset'' []
              [(''data_dir'', opt_str (data_dir e)),
               (''json_file'', PStr (if \<not> testdev then val_ann e else ''image_info_test-dev2017.json'')),
               (''name'', PStr (if \<not> testdev then ''val2017'' else ''test2017'')),
               (''img_size'', size_tuple (test_size e)), (''preproc'', PRef preproc),
               (''type'', PStr ''eval'')]) (\<lambda>valdataset.
     bindM (if is_distributed
            then bindM (fw_value env (env_world_size env)) (\<lambda>world_size.
                 bindM (lift (floordiv batch_size world_size)) (\<lambda>batch_size.
                 bindM (fw_new env ''torch.utils.data.distributed.DistributedSampler''
                          [PRef valdataset] [(''shuffle'', PBool False)]) (\<lambda>sampler.
                 returnM (batch_size, sampler))))
            else bindM (fw_new env ''torch.utils.data.SequentialSampler'' [PRef valdataset] [])
                   (\<lambda>sampler.
                 returnM (batch_size, sampler))) (\<lambda>(batch_size, sampler).
     fw_new env ''torch.utils.data.DataLoader'' [PRef valdataset]
       [(''num_workers'', PInt (data_num_workers e)), (''pin_memory'', PBool True),
        (''sampler'', PRef sampler), (''batch_size'', PInt batch_size)])))))"

definition get_evaluator :: "env \<Rightarrow> int \<Rightarrow> bool \<Rightarrow> bool \<Rightarrow> bool \<Rightarrow> addr action" where
  "get_evaluator env batch_size is_distributed testdev legacy =
     bindM (fw env) (\<lambda>_.
     bindM (get_eval_loader env batch_size is_distributed testdev legacy) (\<lambda>val_loader.
     bindM get_self (\<lambda>e.
     fw_new env ''COCOEvaluator'' []
       [(''dataloader'', PRef val_loader), (''img_size'', size_tuple (test_size e)),
        (''confthre'', PFloat (test_conf e)), (''nmsthre'', PFloat (nmsthre e)),
        (''num_classes'', PInt (num_classes e)), (''num_colors'', PInt (num_colors e)),
        (''testdev'', PBool testdev)])))"

text \<open>\<open>evaluator.evaluate(model, is_distributed, half)\<close>: its result is the framework's.\<close>

definition eval :: "env \<Rightarrow> addr \<Rightarrow> addr \<Rightarrow> bool \<Rightarrow> bool \<Rightarrow> pyval action" where
  "eval env model_ref evaluator is_distributed half = fw_value env (env_evaluate env)"

section \<open>What the claims speak of\<close>

subsection \<open>Exceptions of the framework\<close>

text \<open>
  An operation propagates the exceptions of the framework when, in every run, a call of
  the run that raises \<open>t\<close> makes the operation raise \<open>t\<close>, and is the last call of
  the run: nothing is caught, changed or tried again.
\<close>

definition propagates :: "env \<Rightarrow> 'a action \<Rightarrow> bool" where
  "propagates env m =
     (\<forall>w. ncalls w \<le> ncalls (snd (m w)) \<and>
          (\<forall>k t. ncalls w \<le> k \<and> k < ncalls (snd (m w)) \<and> env_faults env k = Some t \<longrightarrow>
                 fst (m w) = Inl (FrameworkError t) \<and> ncalls (snd (m w)) = Suc k))"

named_theorems prop_intros

subsection \<open>Attributes an operation leaves alone\<close>

text \<open>
  \<open>unchanged V m\<close>: the view \<open>V\<close> of the configuration object is the same after every
  run of \<open>m\<close>, whether it returns or raises. \<open>keeps_range m\<close>: a configuration object
  that has a \<open>random_size\<close> is the same after every run of \<open>m\<close>.
\<close>

definition unchanged :: "(Exp \<Rightarrow> 'b) \<Rightarrow> 'a action \<Rightarrow> bool" where
  "unchanged V m = (\<forall>w. V (self (snd (m w))) = V (self w))"



named_theorems unch_intros

named_theorems inv

subsection \<open>Arguments of a constructed object\<close>

definition kwarg :: "proc \<Rightarrow> addr \<Rightarrow> string \<Rightarrow> pyval option" where
  "kwarg w a k = (case heap w a of Some (Built c args kw) \<Rightarrow> map_of kw k | _ \<Rightarrow> None)"

subsection \<open>The size rank 0 picks\<close>


text \<open>
  In a distributed run, the size picked at rank 0; a run in which no call into the
  framework raises; and the 64 bit range of the tensor that carries the size.
\<close>

definition rank0_pick :: "(env \<times> proc) list \<Rightarrow> error + int \<times> int" where
  "rank0_pick ps = fst (pick_size (env_randbits (fst (ps ! 0))) (self (snd (ps ! 0))))"

definition no_faults :: "(env \<times> proc) list \<Rightarrow> bool" where
  "no_faults ps = (\<forall>p \<in> set ps. \<forall>k. env_faults (fst p) k = None)"

definition int64 :: "int \<Rightarrow> bool" where
  "int64 n = (- (2 ^ 63) \<le> n \<and> n < 2 ^ 63)"

text \<open>
  The integer part of a rational, as \<open>int(x)\<close> takes it, and the width in the words of
  claim C8: \<open>32 * int(s * input_size[1] / input_size[0])\<close>, the product formed first
  and divided once.
\<close>

definition truncated :: "rat \<Rightarrow> int" where
  "truncated r = (if 0 \<le> r then \<lfloor>r\<rfloor> else \<lceil>r\<rceil>)"


subsection \<open>Scaled target rows\<close>

text \<open>
  A row of targets after \<open>preprocess\<close>, in the words of the claim: the coordinates at
  the even indices from 2 on are multiplied by \<open>scale_x\<close>, those at the odd indices
  from 3 on by \<open>scale_y\<close>, and the others are kept. \<open>alternate f g\<close> applies \<open>f\<close>
  and \<open>g\<close> in turn along a list.
\<close>

definition scale_coordinates ::
    "('a \<Rightarrow> pyfloat \<Rightarrow> 'a) \<Rightarrow> pyfloat \<Rightarrow> pyfloat \<Rightarrow> 'a list \<Rightarrow> 'a list" where
  "scale_coordinates mul scale_x scale_y row =
     map (\<lambda>(j, x). if 2 \<le> j \<and> even j then mul x scale_x
                    else if 3 \<le> j \<and> odd j then mul x scale_y
                    else x)
       (enumerate 0 row)"

text \<open>
  What an int64 tensor holds in place of the product of its element \<open>x\<close> and a scale,
  and the addresses that hold a tensor.
\<close>

definition int64_product :: "env \<Rightarrow> 64 word \<Rightarrow> pyfloat \<Rightarrow> 64 word" where
  "int64_product env x scale = to_int64 env (env_tensor_mul env (Finite (of_int (sint x))) scale)"

definition tensor_at :: "proc \<Rightarrow> addr \<Rightarrow> bool" where
  "tensor_at w a =
     (case heap w a of Some (FloatTensor rows) \<Rightarrow> True | Some (LongTensor rows) \<Rightarrow> True
      | _ \<Rightarrow> False)"

fun alternate :: "('a \<Rightarrow> 'a) \<Rightarrow> ('a \<Rightarrow> 'a) \<Rightarrow> 'a list \<Rightarrow> 'a list" where
  "alternate f g [] = []"
| "alternate f g (x # xs) = f x # alternate g f xs"

subsection \<open>Example inputs\<close>

text \<open>
  A small network in the naming of the YOLOX models (a convolution without bias, its
  batch norm, a prediction layer), a framework that raises nothing, and a process that
  has just constructed its \<open>Exp\<close>.
\<close>

definition example_modules :: "(string \<times> module) list" where
  "example_modules =
     [('''', \<lparr>is_BatchNorm2d = False, attrs = []\<rparr>),
      (''backbone.stem.conv'',
         \<lparr>is_BatchNorm2d = False, attrs = [(''weight'', PParam 0), (''bias'', PNone)]\<rparr>),
      (''backbone.stem.bn'',
         \<lparr>is_BatchNorm2d = True, attrs = [(''weight'', PParam 1), (''bias'', PParam 2)]\<rparr>),
      (''head.cls_preds.0'',
         \<lparr>is_BatchNorm2d = False, attrs = [(''weight'', PParam 3), (''bias'', PParam 4)]\<rparr>)]"

definition example_env :: env where
  "example_env =
     \<lparr> env_faults = (\<lambda>_. None), env_local_rank = 0, env_world_size = 2, env_dist_rank = 0,
       env_dataset_len = 100, env_yolox_modules = example_modules,
       env_initialize_biases = (\<lambda>_ ms. ms), env_uninitialized = (0, 0), env_randbits = 5,
       env_received = (0, 0), env_tensor_mul = float_mul,
       env_tensor_cast = (\<lambda>_. - (2 ^ 63)), env_evaluate = PNone \<rparr>"

definition example_proc :: proc where
  "example_proc = \<lparr> self = Exp_init None, heap = Map.empty, next_addr = 0, ncalls = 0 \<rparr>"

text \<open>The same framework, but its fourth call raises exception 7.\<close>

definition faulty_env :: env where
  "faulty_env = example_env\<lparr>env_faults := (\<lambda>k. if k = 3 then Some 7 else None)\<rparr>"

text \<open>The same process, with \<open>self.random_size = (14, 26)\<close> set before training.\<close>

definition ranged_proc :: proc where
  "ranged_proc = example_proc\<lparr>self := (Exp_init None)\<lparr>random_size := Some (14, 26)\<rparr>\<rparr>"


definition loaded_proc :: proc where
  "loaded_proc = snd (get_data_loader example_env 8 False False False example_proc)"

text \<open>Three ranks of a distributed run; they differ in their stale memory and random bits.\<close>

definition example_ranks :: "(env \<times> proc) list" where
  "example_ranks =
     [(example_env, example_proc),
      (example_env\<lparr>env_uninitialized := (7, 9), env_randbits := 3\<rparr>, example_proc),
      (example_env\<lparr>env_uninitialized := (1, 2)\<rparr>, ranged_proc)]"

text \<open>A process that holds an input tensor at address 0 and one row of targets at 1.\<close>

definition tensor_proc :: proc where
  "tensor_proc =
     example_proc\<lparr>heap := [0 \<mapsto> FloatTensor [[Finite 7]],
                           1 \<mapsto> FloatTensor [[Finite 0, Finite 1, Finite 10, Finite 20,
                                                 Finite 30, Finite 40]]],
                  next_addr := 2\<rparr>"

text \<open>The same process with int64 targets, as a loader of integer labels produces them.\<close>

definition long_proc :: proc where
  "long_proc =
     example_proc\<lparr>heap := [0 \<mapsto> FloatTensor [[Finite 7]],
                           1 \<mapsto> LongTensor [[0, 1, 5, 20, 30, 41]]],
                  next_addr := 2\<rparr>"

section \<open>Reasoning about actions\<close>

lemma propagates_mono: "propagates env m \<Longrightarrow> ncalls w \<le> ncalls (snd (m w))"
  by (simp add: propagates_def)

lemma propagates_fault:
  "propagates env m \<Longrightarrow> ncalls w \<le> k \<Longrightarrow> k < ncalls (snd (m w)) \<Longrightarrow> env_faults env k = Some t \<Longrightarrow>
   fst (m w) = Inl (FrameworkError t) \<and> ncalls (snd (m w)) = Suc k"
  unfolding propagates_def by blast

lemma propagatesI:
  assumes "\<And>w. ncalls w \<le> ncalls (snd (m w))"
    and "\<And>w k t. ncalls w \<le> k \<Longrightarrow> k < ncalls (snd (m w)) \<Longrightarrow> env_faults env k = Some t \<Longrightarrow>
           fst (m w) = Inl (FrameworkError t) \<and> ncalls (snd (m w)) = Suc k"
  shows "propagates env m"
  using assms unfolding propagates_def by blast

lemma bindM_Inl: "fst (m w) = Inl e \<Longrightarrow> bindM m f w = (Inl e, snd (m w))"
  by (cases "m w") (simp add: bindM_def)

lemma bindM_Inr: "fst (m w) = Inr x \<Longrightarrow> bindM m f w = f x (snd (m w))"
  by (cases "m w") (simp add: bindM_def)

lemma propagates_bindM [prop_intros]:
  assumes m: "propagates env m" and f: "\<And>x. propagates env (f x)"
  shows "propagates env (bindM m f)"
proof (rule propagatesI)
  fix w
  show "ncalls w \<le> ncalls (snd (bindM m f w))"
  proof (cases "fst (m w)")
    case (Inl e)
    then show ?thesis
      using propagates_mono [OF m, of w] bindM_Inl [of m w e f] by simp
  next
    case (Inr x)
    then show ?thesis
      using propagates_mono [OF m, of w] propagates_mono [OF f, of "snd (m w)" x]
        bindM_Inr [of m w x f]
      by simp
  qed
next
  fix w k t
  assume h: "ncalls w \<le> k" "k < ncalls (snd (bindM m f w))" "env_faults env k = Some t"
  show "fst (bindM m f w) = Inl (FrameworkError t) \<and> ncalls (snd (bindM m f w)) = Suc k"
  proof (cases "fst (m w)")
    case (Inl e)
    then show ?thesis
      using propagates_fault [OF m, of w k t] h bindM_Inl [of m w e f] by auto
  next
    case (Inr x)
    have "\<not> k < ncalls (snd (m w))"
      using propagates_fault [OF m, of w k t] h Inr by auto
    then show ?thesis
      using propagates_fault [OF f, of "snd (m w)" k x t] h Inr bindM_Inr [of m w x f] by simp
  qed
qed

lemma propagates_returnM [prop_intros]: "propagates env (returnM x)"
  by (auto simp: propagates_def returnM_def)

lemma propagates_raise [prop_intros]: "propagates env (raise e)"
  by (auto simp: propagates_def raise_def)

lemma propagates_lift [prop_intros]: "propagates env (lift r)"
  by (auto simp: propagates_def lift_def)

lemma propagates_get_self [prop_intros]: "propagates env get_self"
  by (auto simp: propagates_def get_self_def)

lemma propagates_set_self [prop_intros]: "propagates env (set_self g)"
  by (auto simp: propagates_def set_self_def)

lemma propagates_alloc [prop_intros]: "propagates env (alloc v)"
  by (auto simp: propagates_def alloc_def)

lemma propagates_lookup [prop_intros]: "propagates env (lookup a)"
  by (auto simp: propagates_def lookup_def)

lemma propagates_store [prop_intros]: "propagates env (store a v)"
  by (auto simp: propagates_def store_def)

lemma propagates_fw [prop_intros]: "propagates env (fw env)"
proof (rule propagatesI)
  fix w
  show "ncalls w \<le> ncalls (snd (fw env w))"
    by (simp add: fw_def split: option.splits)
next
  fix w k t
  assume h: "ncalls w \<le> k" "k < ncalls (snd (fw env w))" "env_faults env k = Some t"
  have n: "ncalls (snd (fw env w)) = Suc (ncalls w)"
    by (simp add: fw_def split: option.splits)
  with h have "k = ncalls w"
    by arith
  with h n show "fst (fw env w) = Inl (FrameworkError t) \<and> ncalls (snd (fw env w)) = Suc k"
    by (simp add: fw_def)
qed

lemma propagates_fw_value [prop_intros]: "propagates env (fw_value env x)"
  by (simp add: fw_value_def prop_intros)

lemma propagates_fw_alloc [prop_intros]: "propagates env (fw_alloc env v)"
  by (simp add: fw_alloc_def prop_intros)

lemma propagates_fw_new [prop_intros]: "propagates env (fw_new env c a k)"
  by (simp add: fw_new_def prop_intros)

lemma propagates_random_resize_pick [prop_intros]: "propagates env (random_resize_pick env)"
  by (auto simp: propagates_def random_resize_pick_def split: prod.splits)

lemma propagates_the_model [prop_intros]: "propagates env the_model"
  by (auto simp: the_model_def intro!: prop_intros split: attr.splits)

lemma propagates_update_model [prop_intros]: "propagates env (update_model env f)"
  by (auto simp: update_model_def intro!: prop_intros split: option.splits obj.splits)

lemma propagates_get_model: "propagates env (get_model env)"
  by (auto simp: get_model_def build_model_def intro!: prop_intros)

lemma propagates_get_data_loader:
  "propagates env (get_data_loader env batch_size is_distributed no_aug cache_img)"
  by (auto simp: get_data_loader_def TrainTransform_def intro!: prop_intros)

lemma propagates_tensor_set [prop_intros]: "propagates env (tensor_set env t i n)"
  by (auto simp: tensor_set_def intro!: prop_intros split: option.splits obj.splits list.splits)

lemma propagates_tensor_item [prop_intros]: "propagates env (tensor_item env t i)"
  by (auto simp: tensor_item_def intro!: prop_intros split: option.splits obj.splits list.splits)

lemma propagates_random_resize:
  "propagates env (random_resize env data_loader epoch rank is_distributed)"
  by (auto simp: random_resize_def random_resize_local_def random_resize_sync_def
        random_resize_read_def broadcast_def intro!: prop_intros)

lemma propagates_scale_slice [prop_intros]: "propagates env (scale_slice env t s x)"
  by (auto simp: scale_slice_def intro!: prop_intros split: option.splits obj.splits)

lemma propagates_preprocess: "propagates env (preprocess env inputs targets tsize)"
  by (auto simp: preprocess_def intro!: prop_intros)

lemma propagates_named_modules [prop_intros]: "propagates env (named_modules env)"
  by (auto simp: named_modules_def intro!: prop_intros split: option.splits obj.splits)

lemma propagates_add_param_group [prop_intros]: "propagates env (add_param_group env a g)"
  by (auto simp: add_param_group_def intro!: prop_intros split: option.splits obj.splits)

lemma propagates_get_optimizer: "propagates env (get_optimizer env batch_size)"
  by (auto simp: get_optimizer_def build_optimizer_def intro!: prop_intros split: attr.splits)

lemma propagates_get_lr_scheduler: "propagates env (get_lr_scheduler env lr iters_per_epoch)"
  by (auto simp: get_lr_scheduler_def intro!: prop_intros)

lemma propagates_get_eval_loader [prop_intros]:
  "propagates env (get_eval_loader env batch_size is_distributed testdev legacy)"
  by (auto simp: get_eval_loader_def intro!: prop_intros)

lemma propagates_get_evaluator:
  "propagates env (get_evaluator env batch_size is_distributed testdev legacy)"
  by (auto simp: get_evaluator_def intro!: prop_intros)

lemma propagates_eval: "propagates env (eval env model_ref evaluator is_distributed half)"
  by (auto simp: eval_def intro!: prop_intros)

lemma unchanged_bindM [unch_intros]:
  assumes m: "unchanged V m" and f: "\<And>x. unchanged V (f x)"
  shows "unchanged V (bindM m f)"
  unfolding unchanged_def
proof
  fix w
  show "V (self (snd (bindM m f w))) = V (self w)"
  proof (cases "fst (m w)")
    case (Inl e)
    then show ?thesis
      using m bindM_Inl [of m w e f] by (simp add: unchanged_def)
  next
    case (Inr x)
    have "V (self (snd (m w))) = V (self w)"
      using m by (simp add: unchanged_def)
    moreover have "V (self (snd (f x (snd (m w))))) = V (self (snd (m w)))"
      using f by (simp add: unchanged_def)
    ultimately show ?thesis
      using bindM_Inr [of m w x f] Inr by simp
  qed
qed

lemma unchanged_returnM [unch_intros]: "unchanged V (returnM x)"
  by (simp add: unchanged_def returnM_def)

lemma unchanged_raise [unch_intros]: "unchanged V (raise e)"
  by (simp add: unchanged_def raise_def)

lemma unchanged_lift [unch_intros]: "unchanged V (lift r)"
  by (simp add: unchanged_def lift_def)

lemma unchanged_get_self [unch_intros]: "unchanged V get_self"
  by (simp add: unchanged_def get_self_def)


lemma unchanged_alloc [unch_intros]: "unchanged V (alloc v)"
  by (simp add: unchanged_def alloc_def)

lemma unchanged_lookup [unch_intros]: "unchanged V (lookup a)"
  by (simp add: unchanged_def lookup_def)

lemma unchanged_store [unch_intros]: "unchanged V (store a v)"
  by (simp add: unchanged_def store_def)

lemma unchanged_fw [unch_intros]: "unchanged V (fw env)"
  by (simp add: unchanged_def fw_def split: option.splits)

lemma unchanged_fw_value [unch_intros]: "unchanged V (fw_value env x)"
  by (simp add: fw_value_def unch_intros)

lemma unchanged_fw_alloc [unch_intros]: "unchanged V (fw_alloc env v)"
  by (simp add: fw_alloc_def unch_intros)

lemma unchanged_fw_new [unch_intros]: "unchanged V (fw_new env c a k)"
  by (simp add: fw_new_def unch_intros)

lemma unchanged_tensor_set [unch_intros]: "unchanged V (tensor_set env t i n)"
  by (auto simp: tensor_set_def intro!: unch_intros split: option.splits obj.splits list.splits)

lemma unchanged_tensor_item [unch_intros]: "unchanged V (tensor_item env t i)"
  by (auto simp: tensor_item_def intro!: unch_intros split: option.splits obj.splits list.splits)

lemma unchanged_scale_slice [unch_intros]: "unchanged V (scale_slice env t s x)"
  by (auto simp: scale_slice_def intro!: unch_intros split: option.splits obj.splits)

lemma unchanged_the_model [unch_intros]: "unchanged V the_model"
  by (auto simp: the_model_def intro!: unch_intros split: attr.splits)

lemma unchanged_named_modules [unch_intros]: "unchanged V (named_modules env)"
  by (auto simp: named_modules_def intro!: unch_intros split: option.splits obj.splits)

lemma unchanged_add_param_group [unch_intros]: "unchanged V (add_param_group env a g)"
  by (auto simp: add_param_group_def intro!: unch_intros split: option.splits obj.splits)




lemma pick_size_frame:
  "(snd (pick_size r e))\<lparr>random_size := None\<rparr> = e\<lparr>random_size := None\<rparr>"
  by (auto simp: pick_size_def bindE_def split: sum.splits option.splits prod.splits)


lemma random_resize_pick_eq:
  "random_resize_pick env w =
     (fst (pick_size (env_randbits env) (self w)), w\<lparr>self := snd (pick_size (env_randbits env) (self w))\<rparr>)"
  by (simp add: random_resize_pick_def split: prod.splits)

lemma unchanged_random_resize_pick [unch_intros]:
  "unchanged (\<lambda>e. e\<lparr>random_size := None\<rparr>) (random_resize_pick env)"
  by (simp add: unchanged_def random_resize_pick_eq pick_size_frame)










lemmas prims = returnM_def raise_def lift_def get_self_def set_self_def alloc_def lookup_def
  store_def fw_def fw_value_def fw_alloc_def fw_new_def bindM_def

lemma run_ncalls: "ncalls (snd (get_data_loader (example_env\<lparr>env_faults := (\<lambda>k. if k = 3 then Some 7 else None)\<rparr>) 8 False False False example_proc)) = 4"
  by (simp add: get_data_loader_def TrainTransform_def prims example_env_def example_proc_def)

lemma run_ok: "fst (get_data_loader example_env 8 True False False example_proc) = Inr 6"
  by (simp add: get_data_loader_def TrainTransform_def prims example_env_def example_proc_def floordiv_def)

lemma bindM_Inr_iff [inv]:
  "bindM m f w = (Inr y, w'') \<longleftrightarrow> (\<exists>x w'. m w = (Inr x, w') \<and> f x w' = (Inr y, w''))"
  by (auto simp: bindM_def split: prod.splits sum.splits)

lemma returnM_Inr_iff [inv]: "returnM x w = (Inr y, w') \<longleftrightarrow> y = x \<and> w' = w"
  by (auto simp: returnM_def)

lemma raise_Inr_iff [inv]: "raise e w = (Inr y, w') \<longleftrightarrow> False"
  by (auto simp: raise_def)

lemma lift_Inr_iff [inv]: "lift r w = (Inr y, w') \<longleftrightarrow> r = Inr y \<and> w' = w"
  by (auto simp: lift_def)

lemma get_self_Inr_iff [inv]: "get_self w = (Inr y, w') \<longleftrightarrow> y = self w \<and> w' = w"
  by (auto simp: get_self_def)

lemma set_self_Inr_iff [inv]: "set_self g w = (Inr y, w') \<longleftrightarrow> w' = w\<lparr>self := g (self w)\<rparr>"
  by (auto simp: set_self_def)

lemma alloc_Inr_iff [inv]:
  "alloc v w = (Inr a, w') \<longleftrightarrow>
     a = next_addr w \<and> w' = w\<lparr>heap := (heap w)(next_addr w \<mapsto> v), next_addr := Suc (next_addr w)\<rparr>"
  by (auto simp: alloc_def)

lemma lookup_Inr_iff [inv]: "lookup a w = (Inr y, w') \<longleftrightarrow> y = heap w a \<and> w' = w"
  by (auto simp: lookup_def)

lemma store_Inr_iff [inv]: "store a v w = (Inr y, w') \<longleftrightarrow> w' = w\<lparr>heap := (heap w)(a \<mapsto> v)\<rparr>"
  by (auto simp: store_def)

lemma fw_Inr_iff [inv]:
  "fw env w = (Inr y, w') \<longleftrightarrow> env_faults env (ncalls w) = None \<and> w' = w\<lparr>ncalls := Suc (ncalls w)\<rparr>"
  by (auto simp: fw_def split: option.splits)

lemma fw_value_Inr_iff [inv]:
  "fw_value env x w = (Inr y, w') \<longleftrightarrow>
     env_faults env (ncalls w) = None \<and> y = x \<and> w' = w\<lparr>ncalls := Suc (ncalls w)\<rparr>"
  by (auto simp: fw_value_def inv)

lemma fw_alloc_Inr_iff [inv]:
  "fw_alloc env v w = (Inr a, w') \<longleftrightarrow>
     env_faults env (ncalls w) = None \<and> a = next_addr w \<and>
     w' = w\<lparr>ncalls := Suc (ncalls w), heap := (heap w)(next_addr w \<mapsto> v), next_addr := Suc (next_addr w)\<rparr>"
  by (auto simp: fw_alloc_def inv)

lemma fw_new_Inr_iff [inv]:
  "fw_new env c args kw w = (Inr a, w') \<longleftrightarrow>
     env_faults env (ncalls w) = None \<and> a = next_addr w \<and>
     w' = w\<lparr>ncalls := Suc (ncalls w), heap := (heap w)(next_addr w \<mapsto> Built c args kw),
            next_addr := Suc (next_addr w)\<rparr>"
  by (simp add: fw_new_def inv)

lemma get_data_loader_result:
  assumes "get_data_loader env batch_size is_distributed no_aug cache_img w = (Inr l, w')"
  shows "l = next_addr w + 6 \<and> next_addr w' = next_addr w + 7 \<and>
         dataset (self w') = Obj (next_addr w + 3) \<and>
         kwarg w' l ''batch_sampler'' = Some (PRef (next_addr w + 5)) \<and>
         kwarg w' (next_addr w + 5) ''batch_size'' =
           Some (PInt (if is_distributed then batch_size div env_world_size env else batch_size))"
  using assms
  by (auto simp add: get_data_loader_def TrainTransform_def inv floordiv_def kwarg_def split: if_splits)

lemmas float_eval = to_double_def double_round_def floor_log2_def bit_length.simps
  round_half_even_def pow2_def float_of_int_def int_truediv_def int_of_float_def
  int_times_float_def float_times_int_def bindE_def

lemma Exp_init_fields:
  "input_size (Exp_init s) = (512, 640)" "multiscale_range (Exp_init s) = 5"
  "random_size (Exp_init s) = None" "model (Exp_init s) = Absent"
  "optimizer (Exp_init s) = Absent" "dataset (Exp_init s) = Absent"
  "warmup_epochs (Exp_init s) = 15" "seed (Exp_init s) = s"
  by (simp_all add: Exp_init_def)

lemma size_factor_default: "size_factor (Exp_init s) = Inr (Finite (5 / 4))"
  by (simp add: size_factor_def Exp_init_fields float_eval)

lemma default_random_size_default: "default_random_size (Exp_init s) = Inr (11, 21)"
  by (simp add: default_random_size_def Exp_init_fields float_eval)

lemma scaled_size_16: "scaled_size 16 (Finite (5 / 4)) = Inr (512, 640)"
  by (simp add: scaled_size_def float_eval)

lemma pick_default: "pick_size 5 (Exp_init None) = (Inr (512, 640), (Exp_init None)\<lparr>random_size := Some (11, 21)\<rparr>)"
  by (simp add: pick_size_def size_factor_default default_random_size_default scaled_size_16
      randint_def Exp_init_fields bindE_def)

lemma the_model_Inr_iff [inv]:
  "the_model w = (Inr a, w') \<longleftrightarrow> model (self w) = Obj a \<and> w' = w"
  by (auto simp: the_model_def inv split: attr.splits)

lemma case_Network_Inr_iff [inv]:
  "(case v of Some (Network args ms) \<Rightarrow> g args ms | _ \<Rightarrow> raise e) w = (Inr y, w') \<longleftrightarrow>
     (\<exists>args ms. v = Some (Network args ms) \<and> g args ms w = (Inr y, w'))"
  by (auto simp: raise_def split: option.splits obj.splits)

lemma case_Optimizer_Inr_iff [inv]:
  "(case v of Some (Optimizer gs) \<Rightarrow> g gs | _ \<Rightarrow> raise e) w = (Inr y, w') \<longleftrightarrow>
     (\<exists>gs. v = Some (Optimizer gs) \<and> g gs w = (Inr y, w'))"
  by (auto simp: raise_def split: option.splits obj.splits)

lemma case_LongTensor_Inr_iff [inv]:
  "(case v of Some (LongTensor [xs]) \<Rightarrow> g xs | _ \<Rightarrow> raise e) w = (Inr y, w') \<longleftrightarrow>
     (\<exists>xs. v = Some (LongTensor [xs]) \<and> g xs w = (Inr y, w'))"
  by (auto simp: raise_def split: option.splits obj.splits list.splits)

lemma case_Tensor_Inr_iff [inv]:
  "(case v of Some (FloatTensor rows) \<Rightarrow> f rows | Some (LongTensor rows) \<Rightarrow> g rows
      | _ \<Rightarrow> raise e) w = (Inr y, w') \<longleftrightarrow>
     (\<exists>rows. v = Some (FloatTensor rows) \<and> f rows w = (Inr y, w')) \<or>
     (\<exists>rows. v = Some (LongTensor rows) \<and> g rows w = (Inr y, w'))"
  by (auto simp: raise_def split: option.splits obj.splits)

lemma update_model_Inr_iff [inv]:
  "update_model env f w = (Inr u, w') \<longleftrightarrow>
     (\<exists>a args ms. model (self w) = Obj a \<and> heap w a = Some (Network args ms) \<and>
        env_faults env (ncalls w) = None \<and>
        w' = w\<lparr>ncalls := Suc (ncalls w), heap := (heap w)(a \<mapsto> Network args (f ms))\<rparr>)"
  by (auto simp: update_model_def inv)

lemma get_model_result:
  assumes "get_model env w = (Inr a, w')"
  shows "model (self w') = Obj a \<and> (\<forall>b. model (self w) = Obj b \<longrightarrow> a = b) \<and>
         ((\<forall>b. model (self w) \<noteq> Obj b) \<longrightarrow> a = next_addr w + 2)"
  using assms
  by (cases "model (self w)") (auto simp: get_model_def build_model_def inv)


lemma named_modules_Inr_iff [inv]:
  "named_modules env w = (Inr ms, w') \<longleftrightarrow>
     (\<exists>a args. model (self w) = Obj a \<and> heap w a = Some (Network args ms) \<and>
        env_faults env (ncalls w) = None \<and> w' = w\<lparr>ncalls := Suc (ncalls w)\<rparr>)"
  by (auto simp: named_modules_def inv)

lemma add_param_group_Inr_iff [inv]:
  "add_param_group env a g w = (Inr u, w') \<longleftrightarrow>
     (\<exists>gs. heap w a = Some (Optimizer gs) \<and> env_faults env (ncalls w) = None \<and>
        w' = w\<lparr>ncalls := Suc (ncalls w), heap := (heap w)(a \<mapsto> Optimizer (gs @ [g]))\<rparr>)"
  by (auto simp: add_param_group_def inv)



lemma get_eval_loader_result:
  assumes "get_eval_loader env batch_size is_distributed testdev legacy w = (Inr l, w')"
  shows "kwarg w' l ''batch_size'' =
           Some (PInt (if is_distributed then batch_size div env_world_size env else batch_size))"
  using assms
  by (auto simp add: get_eval_loader_def inv floordiv_def kwarg_def split: if_splits)

lemma get_data_loader_returns:
  assumes "\<forall>k. env_faults env k = None" "is_distributed \<longrightarrow> env_world_size env \<noteq> 0"
  shows "\<exists>l w'. get_data_loader env batch_size is_distributed no_aug cache_img w = (Inr l, w')"
  using assms by (simp add: get_data_loader_def TrainTransform_def prims floordiv_def)

lemma get_eval_loader_returns:
  assumes "\<forall>k. env_faults env k = None" "is_distributed \<longrightarrow> env_world_size env \<noteq> 0"
  shows "\<exists>l w'. get_eval_loader env batch_size is_distributed testdev legacy w = (Inr l, w')"
  using assms by (simp add: get_eval_loader_def prims floordiv_def)

lemma sint_int64:
  "- (2 ^ 63) \<le> n \<Longrightarrow> n < 2 ^ 63 \<Longrightarrow> sint (word_of_int n :: 64 word) = n"
  by (simp add: sint_sbintrunc' signed_take_bit_int_eq_self)



lemma run_get_model: "fst (get_model example_env example_proc) = Inr 2"
  by (simp add: get_model_def build_model_def update_model_def the_model_def prims
      example_env_def example_proc_def Exp_init_fields)

lemma run_get_model_model: "model (self (snd (get_model example_env example_proc))) = Obj 2"
  using get_model_result [of example_env example_proc 2 "snd (get_model example_env example_proc)"]
    run_get_model by (simp add: prod_eq_iff)





lemma loaded_proc_facts:
  "fst (get_data_loader example_env 8 False False False example_proc) = Inr 6"
  "next_addr loaded_proc = 7" "dataset (self loaded_proc) = Obj 3"
  by (simp_all add: loaded_proc_def get_data_loader_def TrainTransform_def prims example_env_def
      example_proc_def)

lemma first_load: "get_data_loader example_env 8 False False False example_proc = (Inr 6, loaded_proc)"
  using loaded_proc_facts(1) by (simp add: prod_eq_iff loaded_proc_def)

lemma second_load:
  "\<exists>w'. get_data_loader example_env 8 False False False loaded_proc = (Inr 13, w') \<and>
        dataset (self w') = Obj 10 \<and> next_addr w' = 14"
proof -
  have e: "\<forall>k. env_faults example_env k = None" "False \<longrightarrow> env_world_size example_env \<noteq> 0"
    by (simp_all add: example_env_def)
  from get_data_loader_returns [OF e, of 8 False False loaded_proc]
  obtain l w' where r: "get_data_loader example_env 8 False False False loaded_proc = (Inr l, w')"
    by blast
  note b = get_data_loader_result [OF r]
  have "l = next_addr loaded_proc + 6" "next_addr w' = next_addr loaded_proc + 7"
    "dataset (self w') = Obj (next_addr loaded_proc + 3)"
    using b by simp_all
  then have "l = 13" "next_addr w' = 14" "dataset (self w') = Obj 10"
    by (simp_all add: loaded_proc_facts)
  with r show ?thesis by simp
qed

lemma double_round_1: "double_round 1 = 1"
  by (simp add: double_round_def floor_log2_def bit_length.simps round_half_even_def pow2_def)

lemma int_truediv_self: "x \<noteq> 0 \<Longrightarrow> int_truediv x x = Inr (Finite 1)"
  by (simp add: int_truediv_def to_double_def double_round_1)

lemma bindE_Inr_iff: "bindE r f = Inr y \<longleftrightarrow> (\<exists>x. r = Inr x \<and> f x = Inr y)"
  by (cases r) (simp_all add: bindE_def)



lemma scaled_size_Inr:
  "scaled_size s f = Inr (h, wd) \<Longrightarrow>
     h = 32 * s \<and> (\<exists>n. bindE (int_times_float s f) int_of_float = Inr n \<and> wd = 32 * n)"
  by (auto simp: scaled_size_def bindE_Inr_iff)

lemma random_resize_pick_Inr_iff [inv]:
  "random_resize_pick env w = (Inr sz, w') \<longleftrightarrow>
     fst (pick_size (env_randbits env) (self w)) = Inr sz \<and>
     w' = w\<lparr>self := snd (pick_size (env_randbits env) (self w))\<rparr>"
  by (auto simp: random_resize_pick_eq)

lemma tensor_set_Inr_iff [inv]:
  "tensor_set env t i n w = (Inr u, w') \<longleftrightarrow>
     env_faults env (ncalls w) = None \<and>
     (\<exists>xs. heap w t = Some (LongTensor [xs]) \<and> i < length xs \<and> - (2 ^ 63) \<le> n \<and> n < 2 ^ 63 \<and>
        w' = w\<lparr>ncalls := Suc (ncalls w),
               heap := (heap w)(t \<mapsto> LongTensor [xs[i := word_of_int n]])\<rparr>)"
  unfolding tensor_set_def bindM_Inr_iff fw_Inr_iff lookup_Inr_iff
  by (auto simp: case_LongTensor_Inr_iff store_Inr_iff raise_Inr_iff split: if_splits)

lemma tensor_item_Inr_iff [inv]:
  "tensor_item env t i w = (Inr n, w') \<longleftrightarrow>
     env_faults env (ncalls w) = None \<and> env_faults env (Suc (ncalls w)) = None \<and>
     (\<exists>xs. heap w t = Some (LongTensor [xs]) \<and> i < length xs \<and> n = sint (xs ! i) \<and>
        w' = w\<lparr>ncalls := Suc (Suc (ncalls w))\<rparr>)"
  unfolding tensor_item_def bindM_Inr_iff fw_Inr_iff lookup_Inr_iff
  by (auto simp: case_LongTensor_Inr_iff returnM_Inr_iff raise_Inr_iff split: if_splits)

lemma local_rank0:
  assumes "random_resize_local env 0 w = (Inr t, w')"
  shows "\<exists>h wd. fst (pick_size (env_randbits env) (self w)) = Inr (h, wd) \<and>
           - (2 ^ 63) \<le> h \<and> h < 2 ^ 63 \<and> - (2 ^ 63) \<le> wd \<and> wd < 2 ^ 63 \<and>
           heap w' t = Some (LongTensor [[word_of_int h, word_of_int wd]])"
  using assms by (auto simp: random_resize_local_def inv)

lemma local_other:
  assumes "random_resize_local env rank w = (Inr t, w')" "rank \<noteq> 0"
  shows "heap w' t = Some (LongTensor [[fst (env_uninitialized env), snd (env_uninitialized env)]])"
  using assms by (auto simp: random_resize_local_def inv)

lemma sync_read:
  assumes "bindM (random_resize_sync env t d) (\<lambda>_. random_resize_read env t) w = (Inr r, w')"
    and "heap w t = Some (LongTensor [[a, b]])"
  shows "r = (if d \<and> env_dist_rank env \<noteq> 0
              then (sint (fst (env_received env)), sint (snd (env_received env)))
              else (sint a, sint b))"
  using assms
  by (auto simp: random_resize_sync_def random_resize_read_def broadcast_def inv split: if_splits)

lemma random_resize_rank0:
  assumes "random_resize env data_loader epoch 0 is_distributed w = (Inr r, w')"
    and "env_dist_rank env = 0"
  shows "fst (pick_size (env_randbits env) (self w)) = Inr r"
proof -
  from assms(1) obtain t w1 where
    l: "random_resize_local env 0 w = (Inr t, w1)" and
    s: "bindM (random_resize_sync env t is_distributed) (\<lambda>_. random_resize_read env t) w1 = (Inr r, w')"
    by (auto simp: random_resize_def bindM_Inr_iff)
  from local_rank0 [OF l] obtain h wd where
    p: "fst (pick_size (env_randbits env) (self w)) = Inr (h, wd)" and
    b: "- (2 ^ 63) \<le> h" "h < 2 ^ 63" "- (2 ^ 63) \<le> wd" "wd < 2 ^ 63" and
    hp: "heap w1 t = Some (LongTensor [[word_of_int h, word_of_int wd]])"
    by blast
  from sync_read [OF s hp] assms(2) have "r = (sint (word_of_int h :: 64 word), sint (word_of_int wd :: 64 word))"
    by simp
  with b have "r = (h, wd)"
    by (simp add: sint_int64)
  with p show ?thesis by simp
qed

lemma broadcast_payload_Some:
  assumes "broadcast_payload env w = Some (a, b)"
  shows "\<exists>h wd. fst (pick_size (env_randbits env) (self w)) = Inr (h, wd) \<and>
           - (2 ^ 63) \<le> h \<and> h < 2 ^ 63 \<and> - (2 ^ 63) \<le> wd \<and> wd < 2 ^ 63 \<and>
           a = word_of_int h \<and> b = word_of_int wd"
proof -
  let ?m = "bindM (random_resize_local env 0) (\<lambda>tensor.
             bindM (fw env) (\<lambda>_. bindM (fw env) (\<lambda>_. lookup tensor)))"
  from assms obtain w1 where m: "?m w = (Inr (Some (LongTensor [[a, b]])), w1)"
    by (auto simp: broadcast_payload_def split: prod.splits sum.splits option.splits obj.splits
        list.splits)
  then obtain t w2 where l: "random_resize_local env 0 w = (Inr t, w2)"
    and h: "heap w2 t = Some (LongTensor [[a, b]])"
    by (auto simp: inv)
  from local_rank0 [OF l] h show ?thesis
    by auto
qed

lemma random_resize_other_rank:
  assumes "random_resize env data_loader epoch rank True w = (Inr r, w')"
    and "rank \<noteq> 0" and "env_dist_rank env \<noteq> 0"
  shows "r = (sint (fst (env_received env)), sint (snd (env_received env)))"
proof -
  from assms(1) obtain t w1 where
    l: "random_resize_local env rank w = (Inr t, w1)" and
    s: "bindM (random_resize_sync env t True) (\<lambda>_. random_resize_read env t) w1 = (Inr r, w')"
    by (auto simp: random_resize_def bindM_Inr_iff)
  from sync_read [OF s local_other [OF l assms(2)]] assms(3) show ?thesis
    by simp
qed

lemma local_rank0_run:
  assumes "\<forall>k. env_faults env k = None"
    and "fst (pick_size (env_randbits env) (self w)) = Inr (h, wd)"
    and "int64 h" "int64 wd"
  shows "\<exists>t w'. random_resize_local env 0 w = (Inr t, w') \<and>
           heap w' t = Some (LongTensor [[word_of_int h, word_of_int wd]])"
  using assms
  by (simp add: random_resize_local_def tensor_set_def prims random_resize_pick_eq int64_def)

lemma local_other_run:
  assumes "\<forall>k. env_faults env k = None" and "rank \<noteq> 0"
  shows "\<exists>t w'. random_resize_local env rank w = (Inr t, w') \<and>
           heap w' t = Some (LongTensor [[fst (env_uninitialized env), snd (env_uninitialized env)]])"
  using assms
  by (simp add: random_resize_local_def prims)

lemma sync_read_run:
  assumes "\<forall>k. env_faults env k = None" and "heap w t = Some (LongTensor [[a, b]])"
  shows "\<exists>w'. bindM (random_resize_sync env t d) (\<lambda>_. random_resize_read env t) w =
           (Inr (if d \<and> env_dist_rank env \<noteq> 0
                 then (sint (fst (env_received env)), sint (snd (env_received env)))
                 else (sint a, sint b)), w')"
  using assms
  by (simp add: random_resize_sync_def random_resize_read_def broadcast_def tensor_item_def prims)

lemma random_resize_rank0_run:
  assumes "\<forall>k. env_faults env k = None"
    and "fst (pick_size (env_randbits env) (self w)) = Inr (h, wd)"
    and "int64 h" "int64 wd" and "env_dist_rank env = 0"
  shows "\<exists>w'. random_resize env data_loader epoch 0 d w = (Inr (h, wd), w')"
proof -
  from local_rank0_run [OF assms(1-4)] obtain t w1 where
    l: "random_resize_local env 0 w = (Inr t, w1)" and
    hp: "heap w1 t = Some (LongTensor [[word_of_int h, word_of_int wd]])"
    by blast
  from sync_read_run [OF assms(1) hp, of d] assms(3,4,5) obtain w' where
    "bindM (random_resize_sync env t d) (\<lambda>_. random_resize_read env t) w1 = (Inr (h, wd), w')"
    by (auto simp: sint_int64 int64_def)
  with l show ?thesis
    by (simp add: random_resize_def bindM_def)
qed

lemma random_resize_other_run:
  assumes "\<forall>k. env_faults env k = None" and "rank \<noteq> 0" and "env_dist_rank env \<noteq> 0"
  shows "\<exists>w'. random_resize env data_loader epoch rank True w =
           (Inr (sint (fst (env_received env)), sint (snd (env_received env))), w')"
proof -
  from local_other_run [OF assms(1,2)] obtain t w1 where
    l: "random_resize_local env rank w = (Inr t, w1)" and
    hp: "heap w1 t = Some (LongTensor [[fst (env_uninitialized env), snd (env_uninitialized env)]])"
    by blast
  from sync_read_run [OF assms(1) hp, of True] assms(3) obtain w' where
    "bindM (random_resize_sync env t True) (\<lambda>_. random_resize_read env t) w1 =
       (Inr (sint (fst (env_received env)), sint (snd (env_received env))), w')"
    by auto
  with l show ?thesis
    by (simp add: random_resize_def bindM_def)
qed

lemma broadcast_payload_run:
  assumes "\<forall>k. env_faults env k = None"
    and "fst (pick_size (env_randbits env) (self w)) = Inr (h, wd)"
    and "int64 h" "int64 wd"
  shows "broadcast_payload env w = Some (word_of_int h, word_of_int wd)"
proof -
  from local_rank0_run [OF assms] obtain t w1 where
    l: "random_resize_local env 0 w = (Inr t, w1)" and
    hp: "heap w1 t = Some (LongTensor [[word_of_int h, word_of_int wd]])"
    by blast
  then show ?thesis
    using assms(1) by (simp add: broadcast_payload_def bindM_def prims)
qed

lemma ranks_nth_0:
  "random_resize_ranks ((env0, w0) # others) data_loader epoch ! 0 =
     Some (random_resize (env0\<lparr>env_dist_rank := 0\<rparr>) data_loader epoch 0 True w0)"
  by (simp add: random_resize_ranks_def)

lemma ranks_nth_Suc:
  "j < length others \<Longrightarrow>
   random_resize_ranks ((env0, w0) # others) data_loader epoch ! Suc j =
     (case broadcast_payload (env0\<lparr>env_dist_rank := 0\<rparr>) w0 of
        None \<Rightarrow> None
      | Some p \<Rightarrow>
          Some (random_resize ((fst (others ! j))\<lparr>env_dist_rank := int (Suc j), env_received := p\<rparr>)
                  data_loader epoch (int (Suc j)) True (snd (others ! j))))"
  by (simp add: random_resize_ranks_def nth_enumerate_eq split: prod.splits option.splits)

lemma put_every_other_map: "put_every_other (map f (every_other xs)) xs = alternate f id xs"
  by (induction xs rule: every_other.induct) simp_all

lemma alternate_id_id: "alternate id id xs = xs"
  by (induction xs) simp_all

lemma alternate_alternate:
  "alternate f g (alternate f' g' xs) = alternate (f \<circ> f') (g \<circ> g') xs"
  by (induction xs arbitrary: f g f' g') simp_all

lemma alternate_enumerate:
  "map (\<lambda>(j, x). if even j then f x else g x) (enumerate n xs) =
     (if even n then alternate f g xs else alternate g f xs)"
  by (induction xs arbitrary: n) simp_all

lemma scaled_row:
  "setslice2 3 (map g (getslice2 3 (setslice2 2 (map f (getslice2 2 row)) row)))
     (setslice2 2 (map f (getslice2 2 row)) row) =
   take 2 row @ alternate f g (drop 2 row)"
proof -
  have 1: "setslice2 2 (map f (getslice2 2 row)) row = take 2 row @ alternate f id (drop 2 row)"
    by (simp add: setslice2_def getslice2_def put_every_other_map)
  show ?thesis
  proof (cases row)
    case Nil
    then show ?thesis by (simp add: setslice2_def getslice2_def)
  next
    case (Cons a r1)
    show ?thesis
    proof (cases r1)
      case Nil
      with Cons show ?thesis by (simp add: setslice2_def getslice2_def)
    next
      case (Cons b r2)
      note r1 = this
      show ?thesis
      proof (cases r2)
        case Nil
        with r1 \<open>row = a # r1\<close> show ?thesis by (simp add: setslice2_def getslice2_def)
      next
        case (Cons c r3)
        with r1 \<open>row = a # r1\<close> have row: "row = a # b # c # r3" by simp
        have "setslice2 2 (map f (getslice2 2 row)) row = a # b # f c # alternate id f r3"
          using 1 by (simp add: row eval_nat_numeral)
        then show ?thesis
          by (simp add: row setslice2_def getslice2_def put_every_other_map alternate_alternate
              eval_nat_numeral)
      qed
    qed
  qed
qed

lemma scale_coordinates_alternate:
  "scale_coordinates mul sx sy row =
     take 2 row @ alternate (\<lambda>x. mul x sx) (\<lambda>x. mul x sy) (drop 2 row)"
proof -
  have e: "enumerate 0 row = enumerate 0 (take 2 row) @ enumerate (length (take 2 row)) (drop 2 row)"
    by (metis add_0 append_take_drop_id enumerate_append_eq)
  have a: "map (\<lambda>(j, x). if 2 \<le> j \<and> even j then mul x sx else if 3 \<le> j \<and> odd j then mul x sy else x)
             (enumerate 0 (take 2 row)) = take 2 row"
    by (cases row; cases "tl row") (auto simp: eval_nat_numeral)
  have b: "map (\<lambda>(j, x). if 2 \<le> j \<and> even j then mul x sx else if 3 \<le> j \<and> odd j then mul x sy else x)
             (enumerate n xs) =
           map (\<lambda>(j, x). if even j then mul x sx else mul x sy) (enumerate n xs)" if "2 \<le> n" for n xs
  proof (rule map_cong [OF refl])
    fix p assume "p \<in> set (enumerate n xs)"
    then have "n \<le> fst p"
      by (auto simp: in_set_enumerate_eq)
    with that have 2: "2 \<le> fst p" by simp
    then have "odd (fst p) \<Longrightarrow> 3 \<le> fst p"
      by (cases "fst p = 2") auto
    with 2 show "(case p of (j, x) \<Rightarrow> if 2 \<le> j \<and> even j then mul x sx else if 3 \<le> j \<and> odd j then mul x sy else x) =
          (case p of (j, x) \<Rightarrow> if even j then mul x sx else mul x sy)"
      by (cases p) auto
  qed
  show ?thesis
  proof (cases "2 \<le> length row")
    case True
    then have l: "length (take 2 row) = 2" by simp
    show ?thesis
      unfolding scale_coordinates_def
      by (subst e) (simp only: map_append a l b [OF order_refl] alternate_enumerate, simp)
  next
    case False
    then have "drop 2 row = []" by simp
    moreover from False have "take 2 row = row" by simp
    ultimately show ?thesis
      using a by (simp add: scale_coordinates_def)
  qed
qed

lemma scale_slice_Inr_iff [inv]:
  "scale_slice env t start scale w = (Inr u, w') \<longleftrightarrow>
     env_faults env (ncalls w) = None \<and> env_faults env (Suc (ncalls w)) = None \<and>
     env_faults env (Suc (Suc (ncalls w))) = None \<and>
     ((\<exists>rows. heap w t = Some (FloatTensor rows) \<and>
         w' = w\<lparr>ncalls := Suc (Suc (Suc (ncalls w))),
                heap := (heap w)(t \<mapsto> FloatTensor
                  (map (\<lambda>row. setslice2 start
                                 (map (\<lambda>x. env_tensor_mul env x scale) (getslice2 start row)) row)
                     rows))\<rparr>) \<or>
      (\<exists>rows. heap w t = Some (LongTensor rows) \<and>
         w' = w\<lparr>ncalls := Suc (Suc (Suc (ncalls w))),
                heap := (heap w)(t \<mapsto> LongTensor
                  (map (\<lambda>row. setslice2 start
                                 (map (\<lambda>x. to_int64 env
                                             (env_tensor_mul env (Finite (of_int (sint x))) scale))
                                    (getslice2 start row)) row)
                     rows))\<rparr>))"
  by (auto simp: scale_slice_def inv)

lemma int_truediv_Inr:
  "int_truediv a b = Inr s \<Longrightarrow> b \<noteq> 0 \<and> s = to_double (of_int a / of_int b)"
  by (auto simp: int_truediv_def split: if_splits pyfloat.splits)

lemma example_scales:
  "to_double 2 = Finite 2" "to_double (1 / 2) = Finite (1 / 2)"
  "to_double 5 = Finite 5" "to_double 40 = Finite 40"
  "to_double 15 = Finite 15" "to_double 80 = Finite 80"
  by (simp_all add: float_eval)























lemma scale_slice_float:
  assumes "scale_slice env t start scale w = (Inr u, w')"
    and "heap w t = Some (FloatTensor rows)"
  shows "heap w' t =
           Some (FloatTensor
                   (map (\<lambda>row. setslice2 start
                                  (map (\<lambda>x. env_tensor_mul env x scale) (getslice2 start row)) row)
                      rows))"
  using assms unfolding scale_slice_Inr_iff by auto

lemma scale_slice_long:
  assumes "scale_slice env t start scale w = (Inr u, w')"
    and "heap w t = Some (LongTensor rows)"
  shows "heap w' t =
           Some (LongTensor
                   (map (\<lambda>row. setslice2 start
                                  (map (\<lambda>x. int64_product env x scale) (getslice2 start row)) row)
                      rows))"
  using assms unfolding scale_slice_Inr_iff int64_product_def by auto

lemma scale_slice_tensor:
  assumes "scale_slice env t start scale w = (Inr u, w')"
  shows "(\<exists>rows. heap w t = Some (FloatTensor rows)) \<or> (\<exists>rows. heap w t = Some (LongTensor rows))"
  using assms unfolding scale_slice_Inr_iff by auto

lemma scaled_rows:
  "map (\<lambda>row. setslice2 3 (map g (getslice2 3 row)) row)
     (map (\<lambda>row. setslice2 2 (map f (getslice2 2 row)) row) rows) =
   map (\<lambda>row. take 2 row @ alternate f g (drop 2 row)) rows"
  by (simp add: scaled_row)

lemma scale_rows_eq:
  "map (scale_coordinates mul sx sy) rows =
     map (\<lambda>row. take 2 row @ alternate (\<lambda>x. mul x sx) (\<lambda>x. mul x sy) (drop 2 row)) rows"
  by (simp add: scale_coordinates_alternate)

lemma preprocess_scaled:
  assumes "preprocess env inputs targets tsize w = (Inr (inputs', targets'), w')"
    and "targets < next_addr w"
  shows "\<exists>scale_y scale_x.
           int_truediv (fst tsize) (fst (input_size (self w))) = Inr scale_y \<and>
           int_truediv (snd tsize) (snd (input_size (self w))) = Inr scale_x \<and>
           targets' = targets \<and>
           (if scale_x \<noteq> Finite 1 \<or> scale_y \<noteq> Finite 1
            then (\<exists>rows. heap w targets = Some (FloatTensor rows) \<and>
                    heap w' targets =
                      Some (FloatTensor
                              (map (scale_coordinates (env_tensor_mul env) scale_x scale_y) rows))) \<or>
                 (\<exists>rows. heap w targets = Some (LongTensor rows) \<and>
                    heap w' targets =
                      Some (LongTensor
                              (map (scale_coordinates (int64_product env) scale_x scale_y) rows)))
            else w' = w)"
proof -
  let ?scaled = "\<lambda>sx sy.
       bindM (fw_new env ''nn.functional.interpolate'' [PRef inputs]
                [(''size'', size_tuple tsize), (''mode'', PStr ''bilinear''),
                 (''align_corners'', PBool False)]) (\<lambda>inputs.
       bindM (scale_slice env targets 2 sx) (\<lambda>_.
       bindM (scale_slice env targets 3 sy) (\<lambda>_.
       returnM (inputs, targets))))"
  from assms(1) obtain sy sx where
    y: "int_truediv (fst tsize) (fst (input_size (self w))) = Inr sy" and
    x: "int_truediv (snd tsize) (snd (input_size (self w))) = Inr sx" and
    rest: "(if sx \<noteq> Finite 1 \<or> sy \<noteq> Finite 1 then ?scaled sx sy else returnM (inputs, targets)) w =
             (Inr (inputs', targets'), w')"
    by (auto simp: preprocess_def inv)
  show ?thesis
  proof (cases "sx \<noteq> Finite 1 \<or> sy \<noteq> Finite 1")
    case True
    with rest have "?scaled sx sy w = (Inr (inputs', targets'), w')"
      by simp
    then obtain w1 w2 where
      n: "fw_new env ''nn.functional.interpolate'' [PRef inputs]
                [(''size'', size_tuple tsize), (''mode'', PStr ''bilinear''),
                 (''align_corners'', PBool False)] w = (Inr inputs', w1)" and
      s2: "scale_slice env targets 2 sx w1 = (Inr (), w2)" and
      s3: "scale_slice env targets 3 sy w2 = (Inr (), w')" and
      t: "targets' = targets"
      unfolding bindM_Inr_iff returnM_Inr_iff by auto
    from n assms(2) have h1: "heap w1 targets = heap w targets"
      unfolding fw_new_Inr_iff by auto
    from scale_slice_tensor [OF s2] h1 consider
      rows where "heap w targets = Some (FloatTensor rows)" |
      rows where "heap w targets = Some (LongTensor rows)"
      by auto
    then have "(\<exists>rows. heap w targets = Some (FloatTensor rows) \<and>
            heap w' targets =
              Some (FloatTensor (map (scale_coordinates (env_tensor_mul env) sx sy) rows))) \<or>
         (\<exists>rows. heap w targets = Some (LongTensor rows) \<and>
            heap w' targets =
              Some (LongTensor (map (scale_coordinates (int64_product env) sx sy) rows)))"
    proof cases
      case 1
      with h1 have "heap w1 targets = Some (FloatTensor rows)"
        by simp
      from scale_slice_float [OF s3 scale_slice_float [OF s2 this]]
      have "heap w' targets =
              Some (FloatTensor (map (scale_coordinates (env_tensor_mul env) sx sy) rows))"
        by (simp only: scaled_rows scale_rows_eq)
      with 1 show ?thesis
        by blast
    next
      case 2
      with h1 have "heap w1 targets = Some (LongTensor rows)"
        by simp
      from scale_slice_long [OF s3 scale_slice_long [OF s2 this]]
      have "heap w' targets =
              Some (LongTensor (map (scale_coordinates (int64_product env) sx sy) rows))"
        by (simp only: scaled_rows scale_rows_eq)
      with 2 show ?thesis
        by blast
    qed
    with x y t True show ?thesis
      by auto
  next
    case False
    with rest have "targets' = targets \<and> w' = w"
      by (auto simp: inv)
    with x y False show ?thesis
      by auto
  qed
qed

lemma preprocess_runs:
  assumes "\<forall>k. env_faults env k = None"
    and "int_truediv (fst tsize) (fst (input_size (self w))) = Inr scale_y"
    and "int_truediv (snd tsize) (snd (input_size (self w))) = Inr scale_x"
    and "tensor_at w targets" and "targets < next_addr w"
  shows "\<exists>inputs' w'. preprocess env inputs targets tsize w = (Inr (inputs', targets), w')"
proof -
  from assms(4) consider rows where "heap w targets = Some (FloatTensor rows)"
    | rows where "heap w targets = Some (LongTensor rows)"
    by (auto simp: tensor_at_def split: option.splits obj.splits)
  then show ?thesis
  proof cases
    case 1
    with assms(1,2,3,5) show ?thesis
      by (simp add: preprocess_def scale_slice_def prims)
  next
    case 2
    with assms(1,2,3,5) show ?thesis
      by (simp add: preprocess_def scale_slice_def prims)
  qed
qed

lemma to_int64_truncated:
  "- (2 ^ 63) \<le> truncated r \<Longrightarrow> truncated r < 2 ^ 63 \<Longrightarrow>
   to_int64 env (Finite r) = word_of_int (truncated r)"
  by (simp add: to_int64_def int_of_float_def truncated_def)

lemma preprocess_inputs:
  assumes "preprocess env inputs targets tsize w = (Inr (inputs', targets'), w')"
    and "int_truediv (fst tsize) (fst (input_size (self w))) = Inr scale_y"
    and "int_truediv (snd tsize) (snd (input_size (self w))) = Inr scale_x"
    and "scale_x \<noteq> Finite 1 \<or> scale_y \<noteq> Finite 1"
  shows "inputs' = next_addr w"
  using assms
  by (auto simp: preprocess_def bindM_Inr_iff lift_Inr_iff get_self_Inr_iff fw_new_Inr_iff
      returnM_Inr_iff split: if_splits)

lemma floor_5_2: "\<lfloor>5 / 2 :: rat\<rfloor> = 2"
  by (rule floor_unique) simp_all

lemma long_scales:
  "to_double (5 / 2) = Finite (5 / 2)" "to_double 82 = Finite 82"
  by code_simp+

lemma long_products:
  "int64_product example_env 5 (Finite (1 / 2)) = 2"
  "int64_product example_env 30 (Finite (1 / 2)) = 15"
  "int64_product example_env 20 (Finite 2) = 40"
  "int64_product example_env 41 (Finite 2) = 82"
  by (simp_all add: int64_product_def to_int64_def example_env_def int_of_float_def
      example_scales long_scales floor_5_2)

lemma long_fields:
  "heap long_proc 1 = Some (LongTensor [[0, 1, 5, 20, 30, 41]])"
  "1 < next_addr long_proc" "next_addr long_proc = 2"
  "input_size (self long_proc) = (512, 640)" "tensor_at long_proc 1"
  by (simp_all add: long_proc_def example_proc_def Exp_init_fields tensor_at_def)

lemma example_truediv:
  "int_truediv 1024 512 = Inr (Finite 2)" "int_truediv 320 640 = Inr (Finite (1 / 2))"
  by (simp_all add: int_truediv_def example_scales)

lemma scale_coordinates_6:
  "scale_coordinates mul sx sy [a, b, c, d, e, f] =
     [a, b, mul c sx, mul d sy, mul e sx, mul f sy]"
  by (simp add: scale_coordinates_def enumerate_eq_zip upt_rec)

section \<open>The claims\<close>

subsection \<open>C2: all ranks resize to the size of rank 0\<close>

text \<open>
  Claim C2: when \<open>random_resize\<close> is called with \<open>is_distributed\<close> true, every rank
  returns the same pair, the size picked at rank 0. In a distributed run of any number
  of ranks, whichever calls into the framework raise, a rank that returns a pair returns
  the size rank 0 picked; and when no call raises and the size rank 0 picks fits the
  int64 tensor, every rank returns it.
\<close>

theorem ranks_agree:
  assumes "i < length ps"
  shows "(random_resize_ranks ps data_loader epoch ! i = Some (Inr r, w') \<longrightarrow>
            rank0_pick ps = Inr r) \<and>
         (no_faults ps \<longrightarrow> rank0_pick ps = Inr (h, wd) \<longrightarrow> int64 h \<longrightarrow> int64 wd \<longrightarrow>
            (\<exists>w''. random_resize_ranks ps data_loader epoch ! i = Some (Inr (h, wd), w'')))"
proof -
  from assms obtain env0 w0 others where ps: "ps = (env0, w0) # others"
    by (cases ps) auto
  let ?root = "env0\<lparr>env_dist_rank := 0\<rparr>"
  have pick: "rank0_pick ps = fst (pick_size (env_randbits ?root) (self w0))"
    by (simp add: rank0_pick_def ps)
  have agree: "rank0_pick ps = Inr r"
    if run: "random_resize_ranks ps data_loader epoch ! i = Some (Inr r, w')"
  proof (cases i)
    case 0
    with run have "random_resize ?root data_loader epoch 0 True w0 = (Inr r, w')"
      by (simp add: ps ranks_nth_0)
    from random_resize_rank0 [OF this] show ?thesis
      by (simp add: pick)
  next
    case (Suc j)
    with assms have j: "j < length others"
      by (simp add: ps)
    let ?peer = "\<lambda>p. (fst (others ! j))\<lparr>env_dist_rank := int (Suc j), env_received := p\<rparr>"
    from run Suc obtain p where
      p: "broadcast_payload ?root w0 = Some p" and
      rr: "random_resize (?peer p) data_loader epoch (int (Suc j)) True (snd (others ! j)) = (Inr r, w')"
      by (auto simp: ps ranks_nth_Suc [OF j] split: option.splits)
    from random_resize_other_rank [OF rr] have r: "r = (sint (fst p), sint (snd p))"
      by simp
    from broadcast_payload_Some [of ?root w0 "fst p" "snd p"] p obtain h' wd' where
      "fst (pick_size (env_randbits ?root) (self w0)) = Inr (h', wd')"
      "- (2 ^ 63) \<le> h'" "h' < 2 ^ 63" "- (2 ^ 63) \<le> wd'" "wd' < 2 ^ 63"
      "fst p = word_of_int h'" "snd p = word_of_int wd'"
      by auto
    with r show ?thesis
      by (simp add: pick sint_int64)
  qed
  have returns: "\<exists>w''. random_resize_ranks ps data_loader epoch ! i = Some (Inr (h, wd), w'')"
    if nf: "no_faults ps" and pk: "rank0_pick ps = Inr (h, wd)" and b: "int64 h" "int64 wd"
  proof -
    have nf0: "\<forall>k. env_faults ?root k = None"
      using nf by (simp add: no_faults_def ps)
    have pk0: "fst (pick_size (env_randbits ?root) (self w0)) = Inr (h, wd)"
      using pk by (simp add: pick)
    show ?thesis
    proof (cases i)
      case 0
      from random_resize_rank0_run [OF nf0 pk0 b, of data_loader epoch True] show ?thesis
        by (simp add: 0 ps ranks_nth_0)
    next
      case (Suc j)
      with assms have j: "j < length others"
        by (simp add: ps)
      let ?p = "(word_of_int h :: 64 word, word_of_int wd :: 64 word)"
      let ?peer = "(fst (others ! j))\<lparr>env_dist_rank := int (Suc j), env_received := ?p\<rparr>"
      have "others ! j \<in> set ps"
        using j by (simp add: ps)
      then have nfj: "\<forall>k. env_faults ?peer k = None"
        using nf by (simp add: no_faults_def)
      from random_resize_other_run [OF nfj, of "int (Suc j)" data_loader epoch "snd (others ! j)"]
      obtain w'' where
        "random_resize ?peer data_loader epoch (int (Suc j)) True (snd (others ! j)) = (Inr (h, wd), w'')"
        using b by (auto simp: sint_int64 int64_def)
      then show ?thesis
        by (simp add: Suc ps ranks_nth_Suc [OF j] broadcast_payload_run [OF nf0 pk0 b])
    qed
  qed
  from agree returns show ?thesis
    by blast
qed

theorem ranks_agree_witness:
  "no_faults example_ranks \<and> rank0_pick example_ranks = Inr (512, 640) \<and>
   map_option fst (random_resize_ranks example_ranks PNone 0 ! 2) = Some (Inr (512, 640)) \<and>
   map_option fst (random_resize_ranks example_ranks PNone 0 ! 0) = Some (Inr (512, 640))"
proof -
  have nf: "no_faults example_ranks"
    by (simp add: no_faults_def example_ranks_def example_env_def)
  have pk: "rank0_pick example_ranks = Inr (512, 640)"
    by (simp add: rank0_pick_def example_ranks_def example_env_def example_proc_def pick_default)
  have b: "int64 512" "int64 640"
    by (simp_all add: int64_def)
  have l: "2 < length example_ranks" "0 < length example_ranks"
    by (simp_all add: example_ranks_def)
  from ranks_agree [OF l(1), of PNone 0 _ _ 512 640] nf pk b
  obtain w2 where 2: "random_resize_ranks example_ranks PNone 0 ! 2 = Some (Inr (512, 640), w2)"
    by blast
  from ranks_agree [OF l(2), of PNone 0 _ _ 512 640] nf pk b
  obtain w0 where 0: "random_resize_ranks example_ranks PNone 0 ! 0 = Some (Inr (512, 640), w0)"
    by blast
  from nf pk 2 0 show ?thesis
    by simp
qed

subsection \<open>C3: the model and the optimizer are built once\<close>



subsection \<open>C4: the dataset is not memoized\<close>

text \<open>
  Claim C4 says that a second call of \<open>get_data_loader\<close> returns the cached dataset
  and loader of the first. It does not: the second call, with the same arguments,
  returns the new loader 13 where the first returned 6, and replaces the dataset 3 of
  the attribute by the new dataset 10.
\<close>

theorem data_loader_memoized_counterexample:
  "fst (get_data_loader example_env 8 False False False example_proc) = Inr 6 \<and>
   dataset (self loaded_proc) = Obj 3 \<and>
   fst (get_data_loader example_env 8 False False False loaded_proc) = Inr 13 \<and>
   dataset (self (snd (get_data_loader example_env 8 False False False loaded_proc))) = Obj 10"
proof -
  from second_load obtain w' where
    "get_data_loader example_env 8 False False False loaded_proc = (Inr 13, w')" "dataset (self w') = Obj 10"
    by blast
  then show ?thesis
    by (simp add: loaded_proc_facts)
qed

text \<open>
  Claim C4 as amended: \<open>get_data_loader\<close> memoizes nothing. Every call that returns has
  constructed a dataset and a loader of its own, stored that dataset in the attribute
  \<open>dataset\<close> and returned that loader; the loader and the dataset of a later call are
  objects other than those of an earlier one.
\<close>

theorem data_loader_rebuilt:
  assumes "get_data_loader env1 batch1 dist1 no_aug1 cache1 w = (Inr l1, w1)"
    and "next_addr w1 \<le> next_addr w2"
    and "get_data_loader env2 batch2 dist2 no_aug2 cache2 w2 = (Inr l2, w3)"
  shows "l1 < l2 \<and>
         (\<exists>d1 d2. dataset (self w1) = Obj d1 \<and> dataset (self w3) = Obj d2 \<and> d1 < d2 \<and>
            next_addr w2 \<le> d2 \<and> d2 < next_addr w3) \<and>
         next_addr w2 \<le> l2 \<and> l2 < next_addr w3"
proof -
  note a = get_data_loader_result [OF assms(1)]
  note b = get_data_loader_result [OF assms(3)]
  have 1: "l1 = next_addr w + 6" "next_addr w1 = next_addr w + 7" "dataset (self w1) = Obj (next_addr w + 3)"
    using a by simp_all
  have 2: "l2 = next_addr w2 + 6" "next_addr w3 = next_addr w2 + 7" "dataset (self w3) = Obj (next_addr w2 + 3)"
    using b by simp_all
  from 1 2 assms(2) show ?thesis by simp
qed

theorem data_loader_rebuilt_witness:
  "(6 :: nat) < 13 \<and>
   fst (get_data_loader example_env 8 False False False loaded_proc) = Inr 13 \<and>
   next_addr loaded_proc \<le> 13"
proof -
  from second_load obtain w' where
    r: "get_data_loader example_env 8 False False False loaded_proc = (Inr 13, w')"
    by blast
  have "next_addr loaded_proc \<le> next_addr loaded_proc"
    by simp
  from data_loader_rebuilt [OF first_load this r] r show ?thesis
    by simp
qed

subsection \<open>C5: the scale of preprocess\<close>

text \<open>
  Claim C5 says that \<open>preprocess\<close> multiplies the coordinates of the targets by the
  scales. For targets of type int64 it does not: the products of lines 208 and 209 are
  assigned into the tensor the caller passed, which keeps its element type. With
  \<open>tsize = (1024, 320)\<close> and the configured size \<open>(512, 640)\<close> the scales are 2 and
  \<open>1 / 2\<close>, and the coordinate 5 at index 2 becomes 2, where \<open>5 * scale_x\<close> is
  \<open>5 / 2\<close>.
\<close>

theorem coordinates_multiplied_counterexample:
  "heap long_proc 1 = Some (LongTensor [[0, 1, 5, 20, 30, 41]]) \<and>
   int_truediv 1024 512 = Inr (Finite 2) \<and> int_truediv 320 640 = Inr (Finite (1 / 2)) \<and>
   fst (preprocess example_env 0 1 (1024, 320) long_proc) = Inr (2, 1) \<and>
   heap (snd (preprocess example_env 0 1 (1024, 320) long_proc)) 1 =
     Some (LongTensor [[0, 1, 2, 40, 15, 82]]) \<and>
   float_mul (Finite 5) (Finite (1 / 2)) = Finite (5 / 2)"
proof -
  have e: "\<forall>k. env_faults example_env k = None"
    by (simp add: example_env_def)
  have d: "int_truediv (fst (1024 :: int, 320 :: int)) (fst (input_size (self long_proc))) = Inr (Finite 2)"
    "int_truediv (snd (1024 :: int, 320 :: int)) (snd (input_size (self long_proc))) = Inr (Finite (1 / 2))"
    by (simp_all add: long_fields example_truediv)
  from preprocess_runs [OF e d long_fields(5,2)] obtain inputs' w' where
    r: "preprocess example_env 0 1 (1024, 320) long_proc = (Inr (inputs', 1), w')"
    by blast
  from preprocess_inputs [OF r d] have i: "inputs' = 2"
    by (simp add: long_fields)
  from preprocess_scaled [OF r long_fields(2)] long_fields(1)
  have "heap w' 1 = Some (LongTensor [[0, 1, 2, 40, 15, 82]])"
    by (simp add: long_fields example_truediv scale_coordinates_6 long_products)
  with r i long_fields(1) show ?thesis
    by (simp add: example_truediv long_scales)
qed

text \<open>
  Claim C5 as amended: \<open>preprocess\<close> computes the scales as the ratios of the
  requested size to the configured input size, \<open>scale_y = tsize[0] / input_size[0]\<close> and
  \<open>scale_x = tsize[1] / input_size[1]\<close> (Python's division of integers, rounded to
  binary64), and, when one of them differs from 1, replaces in the tensor the caller
  passed the coordinates of the targets at the even indices from 2 on by their products
  with \<open>scale_x\<close> and those at the odd indices from 3 on by their products with
  \<open>scale_y\<close>, each product (the framework's) stored in the element type of the
  tensor: a tensor of a floating type holds the product, an int64 tensor the product
  truncated towards zero. When both scales are 1 nothing changes. It returns whenever
  the divisions do, \<open>targets\<close> is a tensor and no call raises.
\<close>

theorem preprocess_scales:
  assumes "targets < next_addr w"
  shows "(preprocess env inputs targets tsize w = (Inr (inputs', targets'), w') \<longrightarrow>
           (\<exists>scale_y scale_x.
              fst (input_size (self w)) \<noteq> 0 \<and> snd (input_size (self w)) \<noteq> 0 \<and>
              scale_y = to_double (of_int (fst tsize) / of_int (fst (input_size (self w)))) \<and>
              scale_x = to_double (of_int (snd tsize) / of_int (snd (input_size (self w)))) \<and>
              targets' = targets \<and>
              (if scale_x \<noteq> Finite 1 \<or> scale_y \<noteq> Finite 1
               then (\<exists>rows. heap w targets = Some (FloatTensor rows) \<and>
                       heap w' targets =
                         Some (FloatTensor
                                 (map (scale_coordinates (env_tensor_mul env) scale_x scale_y) rows))) \<or>
                    (\<exists>rows. heap w targets = Some (LongTensor rows) \<and>
                       heap w' targets =
                         Some (LongTensor
                                 (map (scale_coordinates (int64_product env) scale_x scale_y) rows)))
               else w' = w))) \<and>
         ((\<forall>k. env_faults env k = None) \<longrightarrow> tensor_at w targets \<longrightarrow>
          int_truediv (fst tsize) (fst (input_size (self w))) = Inr sy \<longrightarrow>
          int_truediv (snd tsize) (snd (input_size (self w))) = Inr sx \<longrightarrow>
            (\<exists>inputs'' w''. preprocess env inputs targets tsize w = (Inr (inputs'', targets), w''))) \<and>
         (env_tensor_mul env (Finite (of_int (sint x))) scale = Finite r \<longrightarrow> int64 (truncated r) \<longrightarrow>
            int64_product env x scale = word_of_int (truncated r))"
proof (intro conjI impI)
  assume "preprocess env inputs targets tsize w = (Inr (inputs', targets'), w')"
  from preprocess_scaled [OF this assms] obtain scale_y scale_x where
    r: "int_truediv (fst tsize) (fst (input_size (self w))) = Inr scale_y"
       "int_truediv (snd tsize) (snd (input_size (self w))) = Inr scale_x"
       "targets' = targets"
       "if scale_x \<noteq> Finite 1 \<or> scale_y \<noteq> Finite 1
        then (\<exists>rows. heap w targets = Some (FloatTensor rows) \<and>
                heap w' targets =
                  Some (FloatTensor
                          (map (scale_coordinates (env_tensor_mul env) scale_x scale_y) rows))) \<or>
             (\<exists>rows. heap w targets = Some (LongTensor rows) \<and>
                heap w' targets =
                  Some (LongTensor
                          (map (scale_coordinates (int64_product env) scale_x scale_y) rows)))
        else w' = w"
    by blast
  from int_truediv_Inr [OF r(1)] int_truediv_Inr [OF r(2)] r(3,4)
  show "\<exists>scale_y scale_x.
              fst (input_size (self w)) \<noteq> 0 \<and> snd (input_size (self w)) \<noteq> 0 \<and>
              scale_y = to_double (of_int (fst tsize) / of_int (fst (input_size (self w)))) \<and>
              scale_x = to_double (of_int (snd tsize) / of_int (snd (input_size (self w)))) \<and>
              targets' = targets \<and>
              (if scale_x \<noteq> Finite 1 \<or> scale_y \<noteq> Finite 1
               then (\<exists>rows. heap w targets = Some (FloatTensor rows) \<and>
                       heap w' targets =
                         Some (FloatTensor
                                 (map (scale_coordinates (env_tensor_mul env) scale_x scale_y) rows))) \<or>
                    (\<exists>rows. heap w targets = Some (LongTensor rows) \<and>
                       heap w' targets =
                         Some (LongTensor
                                 (map (scale_coordinates (int64_product env) scale_x scale_y) rows)))
               else w' = w)"
    by (intro exI [of _ scale_y] exI [of _ scale_x]) simp
next
  assume "\<forall>k. env_faults env k = None" and "tensor_at w targets"
    and "int_truediv (fst tsize) (fst (input_size (self w))) = Inr sy"
    and "int_truediv (snd tsize) (snd (input_size (self w))) = Inr sx"
  then show "\<exists>inputs'' w''. preprocess env inputs targets tsize w = (Inr (inputs'', targets), w'')"
    using assms by (intro preprocess_runs)
next
  assume "env_tensor_mul env (Finite (of_int (sint x))) scale = Finite r" and "int64 (truncated r)"
  then show "int64_product env x scale = word_of_int (truncated r)"
    by (simp add: int64_product_def int64_def to_int64_truncated)
qed

theorem preprocess_scales_witness:
  "1 < next_addr tensor_proc \<and> 1 < next_addr long_proc \<and>
   tensor_at tensor_proc 1 \<and> tensor_at long_proc 1 \<and>
   heap tensor_proc 1 =
     Some (FloatTensor [[Finite 0, Finite 1, Finite 10, Finite 20, Finite 30, Finite 40]]) \<and>
   fst (preprocess example_env 0 1 (1024, 320) tensor_proc) = Inr (2, 1) \<and>
   heap (snd (preprocess example_env 0 1 (1024, 320) tensor_proc)) 1 =
     Some (FloatTensor [[Finite 0, Finite 1, Finite 5, Finite 40, Finite 15, Finite 80]]) \<and>
   heap long_proc 1 = Some (LongTensor [[0, 1, 5, 20, 30, 41]]) \<and>
   heap (snd (preprocess example_env 0 1 (1024, 320) long_proc)) 1 =
     Some (LongTensor [[0, 1, int64_product example_env 5 (Finite (1 / 2)), 40, 15, 82]]) \<and>
   env_tensor_mul example_env (Finite (of_int (sint (5 :: 64 word)))) (Finite (1 / 2)) = Finite (5 / 2) \<and>
   int64 (truncated (5 / 2)) \<and>
   int64_product example_env 5 (Finite (1 / 2)) = word_of_int (truncated (5 / 2))"
proof -
  have h: "heap tensor_proc 1 =
     Some (FloatTensor [[Finite 0, Finite 1, Finite 10, Finite 20, Finite 30, Finite 40]])"
    and n: "1 < next_addr tensor_proc"
    and i: "input_size (self tensor_proc) = (512, 640)"
    and ta: "tensor_at tensor_proc 1"
    and nx: "next_addr tensor_proc = 2"
    by (simp_all add: tensor_proc_def example_proc_def Exp_init_fields tensor_at_def)
  have e: "\<forall>k. env_faults example_env k = None" "env_tensor_mul example_env = float_mul"
    by (simp_all add: example_env_def)
  have d: "int_truediv (fst (1024 :: int, 320 :: int)) (fst (input_size (self tensor_proc))) = Inr (Finite 2)"
    "int_truediv (snd (1024 :: int, 320 :: int)) (snd (input_size (self tensor_proc))) = Inr (Finite (1 / 2))"
    by (simp_all add: i example_truediv)
  have dl: "int_truediv (fst (1024 :: int, 320 :: int)) (fst (input_size (self long_proc))) = Inr (Finite 2)"
    "int_truediv (snd (1024 :: int, 320 :: int)) (snd (input_size (self long_proc))) = Inr (Finite (1 / 2))"
    by (simp_all add: long_fields example_truediv)
  note t = preprocess_scales [OF n, where env = example_env and inputs = 0 and tsize = "(1024, 320)"
      and sy = "Finite 2" and sx = "Finite (1 / 2)"]
  from t [THEN conjunct2, THEN conjunct1, rule_format, OF e(1) [rule_format] ta d]
  obtain inputs'' w'' where
    r: "preprocess example_env 0 1 (1024, 320) tensor_proc = (Inr (inputs'', 1), w'')"
    by blast
  from preprocess_inputs [OF r d] have "inputs'' = 2"
    by (simp add: nx)
  moreover
  from preprocess_scales [OF n, where env = example_env and inputs = 0 and tsize = "(1024, 320)"
      and inputs' = inputs'' and targets' = 1 and w' = w'', THEN conjunct1, rule_format, OF r] h
  have "heap w'' 1 =
     Some (FloatTensor [[Finite 0, Finite 1, Finite 5, Finite 40, Finite 15, Finite 80]])"
    by (simp add: i example_scales e(2) scale_coordinates_6)
  moreover
  note tl = preprocess_scales [OF long_fields(2), where env = example_env and inputs = 0
      and tsize = "(1024, 320)" and sy = "Finite 2" and sx = "Finite (1 / 2)"]
  from tl [THEN conjunct2, THEN conjunct1, rule_format, OF e(1) [rule_format] long_fields(5) dl]
  obtain li lw where
    lr: "preprocess example_env 0 1 (1024, 320) long_proc = (Inr (li, 1), lw)"
    by blast
  from preprocess_scales [OF long_fields(2), where env = example_env and inputs = 0
      and tsize = "(1024, 320)" and inputs' = li and targets' = 1 and w' = lw,
      THEN conjunct1, rule_format, OF lr] long_fields(1)
  have "heap lw 1 =
     Some (LongTensor [[0, 1, int64_product example_env 5 (Finite (1 / 2)), 40, 15, 82]])"
    by (simp add: long_fields example_scales scale_coordinates_6 long_products)
  moreover
  have m: "env_tensor_mul example_env (Finite (of_int (sint (5 :: 64 word)))) (Finite (1 / 2)) =
             Finite (5 / 2)"
    by (simp add: e(2) long_scales)
  have k: "int64 (truncated (5 / 2))"
    by (simp add: int64_def truncated_def floor_5_2)
  from preprocess_scales [OF n, where env = example_env and x = 5 and scale = "Finite (1 / 2)"
      and r = "5 / 2", THEN conjunct2, THEN conjunct2, rule_format, OF m k]
  have "int64_product example_env 5 (Finite (1 / 2)) = word_of_int (truncated (5 / 2))" .
  ultimately show ?thesis
    using h n ta r lr m k long_fields(1,2,5) by simp
qed

subsection \<open>C6: what the operations of a training run write\<close>




subsection \<open>C7: exceptions of the framework\<close>

text \<open>
  Claim C7: no operation of the configuration object catches, transforms, retries or
  recovers from an error. Whatever call into the framework raises, in any of the nine
  operations, the operation raises that same exception and makes no further call.
\<close>

theorem errors_propagate:
  "propagates env (get_model env) \<and>
   propagates env (get_data_loader env batch_size is_distributed no_aug cache_img) \<and>
   propagates env (random_resize env data_loader epoch rank is_distributed) \<and>
   propagates env (preprocess env inputs targets tsize) \<and>
   propagates env (get_optimizer env batch_size) \<and>
   propagates env (get_lr_scheduler env lr iters_per_epoch) \<and>
   propagates env (get_eval_loader env batch_size is_distributed testdev legacy) \<and>
   propagates env (get_evaluator env batch_size is_distributed testdev legacy) \<and>
   propagates env (eval env model_ref evaluator is_distributed half)"
  by (simp add: propagates_get_model propagates_get_data_loader propagates_random_resize
      propagates_preprocess propagates_get_optimizer propagates_get_lr_scheduler
      propagates_get_eval_loader propagates_get_evaluator propagates_eval)

theorem errors_propagate_witness:
  "fst (get_data_loader faulty_env 8 False False False example_proc) = Inl (FrameworkError 7) \<and>
   ncalls (snd (get_data_loader faulty_env 8 False False False example_proc)) = 4"
proof -
  have n: "ncalls (snd (get_data_loader faulty_env 8 False False False example_proc)) = 4"
    by (simp add: get_data_loader_def TrainTransform_def prims faulty_env_def example_env_def
        example_proc_def)
  have "propagates faulty_env (get_data_loader faulty_env 8 False False False)"
    using errors_propagate [of faulty_env 8 False False False] by simp
  from propagates_fault [OF this, of example_proc 3 7] n show ?thesis
    by (simp add: faulty_env_def example_env_def example_proc_def)
qed

subsection \<open>C8: the sizes of rank 0 are multiples of 32\<close>




subsection \<open>C9: preprocess at the configured size\<close>

text \<open>
  Claim C9: when the target size equals the configured input size, \<open>preprocess\<close>
  returns \<open>inputs\<close> and \<open>targets\<close> as they are: it calls nothing, and the state of
  the process is the same. (The sizes are those of images, not zero: a zero would make
  the division of line 202 or 203 raise.)
\<close>

theorem preprocess_identity:
  assumes "fst tsize = fst (input_size (self w))" and "snd tsize = snd (input_size (self w))"
    and "fst (input_size (self w)) \<noteq> 0" and "snd (input_size (self w)) \<noteq> 0"
  shows "preprocess env inputs targets tsize w = (Inr (inputs, targets), w)"
proof -
  have y: "int_truediv (fst tsize) (fst (input_size (self w))) = Inr (Finite 1)"
    using assms(1,3) by (simp add: int_truediv_self)
  have x: "int_truediv (snd tsize) (snd (input_size (self w))) = Inr (Finite 1)"
    using assms(2,4) by (simp add: int_truediv_self)
  show ?thesis
    by (simp add: preprocess_def prims x y)
qed

theorem preprocess_identity_witness:
  "fst (input_size (self example_proc)) \<noteq> 0 \<and> snd (input_size (self example_proc)) \<noteq> 0 \<and>
   preprocess example_env 0 1 (512, 640) example_proc = (Inr (0, 1), example_proc)"
proof -
  have i: "input_size (self example_proc) = (512, 640)"
    by (simp add: example_proc_def Exp_init_fields)
  from preprocess_identity [of "(512, 640)" example_proc example_env 0 1] i show ?thesis
    by simp
qed

subsection \<open>C10: the batch size of a process\<close>

text \<open>
  Claim C10: for every \<open>batch_size\<close> and a world size of at least 1, the loader of
  \<open>get_data_loader\<close> (through its batch sampler) and the loader of \<open>get_eval_loader\<close>
  are constructed with the batch size \<open>batch_size // world_size\<close> when
  \<open>is_distributed\<close> holds and with \<open>batch_size\<close> itself otherwise; and both
  operations return when the framework raises nothing.
\<close>

theorem per_process_batch_size:
  assumes "1 \<le> env_world_size env"
  shows "(get_data_loader env batch_size is_distributed no_aug cache_img w = (Inr l, w') \<longrightarrow>
           (\<exists>s. kwarg w' l ''batch_sampler'' = Some (PRef s) \<and>
                kwarg w' s ''batch_size'' =
                  Some (PInt (if is_distributed then batch_size div env_world_size env
                              else batch_size)))) \<and>
         (get_eval_loader env batch_size is_distributed testdev legacy w = (Inr l, w') \<longrightarrow>
           kwarg w' l ''batch_size'' =
             Some (PInt (if is_distributed then batch_size div env_world_size env
                         else batch_size))) \<and>
         ((\<forall>k. env_faults env k = None) \<longrightarrow>
           (\<exists>l w'. get_data_loader env batch_size is_distributed no_aug cache_img w = (Inr l, w')) \<and>
           (\<exists>l w'. get_eval_loader env batch_size is_distributed testdev legacy w = (Inr l, w')))"
proof (intro conjI impI)
  assume "get_data_loader env batch_size is_distributed no_aug cache_img w = (Inr l, w')"
  from get_data_loader_result [OF this]
  show "\<exists>s. kwarg w' l ''batch_sampler'' = Some (PRef s) \<and>
            kwarg w' s ''batch_size'' =
              Some (PInt (if is_distributed then batch_size div env_world_size env else batch_size))"
    by blast
next
  assume "get_eval_loader env batch_size is_distributed testdev legacy w = (Inr l, w')"
  then show "kwarg w' l ''batch_size'' =
      Some (PInt (if is_distributed then batch_size div env_world_size env else batch_size))"
    by (rule get_eval_loader_result)
next
  assume "\<forall>k. env_faults env k = None"
  then show "\<exists>l w'. get_data_loader env batch_size is_distributed no_aug cache_img w = (Inr l, w')"
    using assms by (intro get_data_loader_returns) auto
next
  assume "\<forall>k. env_faults env k = None"
  then show "\<exists>l w'. get_eval_loader env batch_size is_distributed testdev legacy w = (Inr l, w')"
    using assms by (intro get_eval_loader_returns) auto
qed

theorem per_process_batch_size_witness:
  "1 \<le> env_world_size example_env \<and>
   fst (get_data_loader example_env 9 True False False example_proc) = Inr 6 \<and>
   kwarg (snd (get_data_loader example_env 9 True False False example_proc)) 6 ''batch_sampler'' =
     Some (PRef 5) \<and>
   kwarg (snd (get_data_loader example_env 9 True False False example_proc)) 5 ''batch_size'' =
     Some (PInt 4) \<and>
   fst (get_eval_loader example_env 9 True False False example_proc) = Inr 3 \<and>
   kwarg (snd (get_eval_loader example_env 9 True False False example_proc)) 3 ''batch_size'' =
     Some (PInt 4)"
proof -
  have ws: "1 \<le> env_world_size example_env" "env_world_size example_env = 2"
    by (simp_all add: example_env_def)
  have a: "fst (get_data_loader example_env 9 True False False example_proc) = Inr 6"
    by (simp add: get_data_loader_def TrainTransform_def prims example_env_def example_proc_def floordiv_def)
  have b: "fst (get_eval_loader example_env 9 True False False example_proc) = Inr 3"
    by (simp add: get_eval_loader_def prims example_env_def example_proc_def floordiv_def)
  have a': "get_data_loader example_env 9 True False False example_proc =
      (Inr 6, snd (get_data_loader example_env 9 True False False example_proc))"
    using a by (simp add: prod_eq_iff)
  have b': "get_eval_loader example_env 9 True False False example_proc =
      (Inr 3, snd (get_eval_loader example_env 9 True False False example_proc))"
    using b by (simp add: prod_eq_iff)
  have s: "kwarg (snd (get_data_loader example_env 9 True False False example_proc)) 6 ''batch_sampler'' =
     Some (PRef 5)"
    using get_data_loader_result [OF a'] by (simp add: example_proc_def)
  from per_process_batch_size [OF ws(1), of 9 True False False example_proc 6
      "snd (get_data_loader example_env 9 True False False example_proc)"] a' s
  have c: "kwarg (snd (get_data_loader example_env 9 True False False example_proc)) 5 ''batch_size'' =
     Some (PInt 4)"
    by (auto simp: ws)
  from per_process_batch_size [OF ws(1), of 9 True False False example_proc 3 _ False False] b'
  have d: "kwarg (snd (get_eval_loader example_env 9 True False False example_proc)) 3 ''batch_size'' =
     Some (PInt 4)"
    by (auto simp: ws)
  show ?thesis using ws a b s c d by simp
qed

end
